theory Spec2Isabelle
  imports Main
begin

section \<open>Strings\<close>

text \<open>
  JavaScript strings are modelled as \<open>string\<close> (lists of 8-bit characters, one
  character per code unit). Every name the code compares against is ASCII, and
  \<open>toLowerCase\<close> maps no code unit outside ASCII to one of the letters used in
  those names, so lowering the ASCII capitals is all the comparisons can observe.
\<close>

definition toLowerCase_char :: "char \<Rightarrow> char" where
  "toLowerCase_char c =
     (case map_of (zip ''ABCDEFGHIJKLMNOPQRSTUVWXYZ'' ''abcdefghijklmnopqrstuvwxyz'') c of
        None \<Rightarrow> c
      | Some l \<Rightarrow> l)"

definition toLowerCase :: "string \<Rightarrow> string" where
  "toLowerCase s = map toLowerCase_char s"

text \<open>\<open>code.substring(0, n)\<close>.\<close>

definition substring0 :: "nat \<Rightarrow> string \<Rightarrow> string" where
  "substring0 n s = take n s"

text \<open>Decimal rendering of a non-negative integer inside a template literal.\<close>

definition digit_char :: "nat \<Rightarrow> char" where
  "digit_char d = ''0123456789'' ! d"

fun string_of_nat :: "nat \<Rightarrow> string" where
  "string_of_nat n =
     (if n < 10 then [digit_char n]
      else string_of_nat (n div 10) @ [digit_char (n mod 10)])"

declare string_of_nat.simps [simp del]

text \<open>\<open>path.join(a, b)\<close> for two plain segments.\<close>

definition path_join :: "string \<Rightarrow> string \<Rightarrow> string" where
  "path_join a b = a @ ''/'' @ b"

section \<open>Object literals used as tables\<close>

text \<open>
  The language tables are object literals indexed by a string. Such a lookup finds the
  keys the literal lists and, besides them, the properties every object inherits from
  \<open>Object.prototype\<close>; the inherited values are functions or objects, all truthy,
  and none of them has a property \<open>id\<close>.
\<close>

definition object_prototype_names :: "string list" where
  "object_prototype_names =
     [''constructor'', ''__defineGetter__'', ''__defineSetter__'', ''hasOwnProperty'',
      ''__lookupGetter__'', ''__lookupSetter__'', ''isPrototypeOf'', ''propertyIsEnumerable'',
      ''toString'', ''valueOf'', ''__proto__'', ''toLocaleString'']"

datatype 'a property = Own 'a | Inherited | Undefined

definition get_property :: "(string \<times> 'a) list \<Rightarrow> string \<Rightarrow> 'a property" where
  "get_property table key =
     (case map_of table key of
        Some v \<Rightarrow> Own v
      | None \<Rightarrow> if key \<in> set object_prototype_names then Inherited else Undefined)"

section \<open>Promises\<close>

text \<open>
  An awaited promise resolves, rejects, or never settles. A value that is thrown is
  seen through what a \<open>catch\<close> block reads of it: \<open>Readable m\<close> when its
  \<open>message\<close> reads as \<open>m\<close> (\<open>None\<close> when there is none), \<open>Unreadable\<close>
  when the read itself throws (the value is \<open>null\<close> or \<open>undefined\<close>, or the
  property is a getter that throws).
\<close>

datatype rejection = Unreadable | Readable "string option"

datatype ('e, 'a) promise = Resolves 'a | Rejects 'e | Never

text \<open>A promise that cannot reject, given as the value it resolves to, if any.\<close>

definition settled :: "'a option \<Rightarrow> ('e, 'a) promise" where
  "settled r = (case r of None \<Rightarrow> Never | Some v \<Rightarrow> Resolves v)"

section \<open>The local code runner (services/codeRunner)\<close>

datatype status = Pending | Running | Success | Error | Timeout

record ExecutionResult =
  status :: status
  stdout :: string
  stderr :: string
  exitCode :: int
  executionTimeMs :: int

record ExecutionOptions =
  timeout :: "nat option"
  memoryLimit :: "nat option"
  stdin :: "string option"

text \<open>\<open>options.timeout || d\<close>: an absent or zero timeout takes the default.\<close>

definition timeout_or :: "ExecutionOptions \<Rightarrow> nat \<Rightarrow> nat" where
  "timeout_or options d =
     (case timeout options of None \<Rightarrow> d | Some t \<Rightarrow> if t = 0 then d else t)"

subsection \<open>What the runner does to the outside world\<close>

text \<open>
  Every call made on the file system or on a child process is recorded as an effect, in
  program order. \<open>Kill ChildOnly\<close> is a call of \<open>kill(signal)\<close> on Node's
  \<open>ChildProcess\<close>, which signals the child itself as long as it has not exited
  and delivers nothing afterwards; a signal to the whole process group would be the
  separate effect \<open>Kill ProcessGroup\<close>. The child is not spawned detached.
  \<open>Spawn\<close> carries the \<open>timeout\<close> option handed to \<open>spawn\<close>: on it
  Node sets a timer of its own, which calls \<open>kill\<close> with the default signal
  SIGTERM on the child and is cleared when the child exits. That call is recorded like
  the runner's own.
\<close>

datatype signal = SIGTERM | SIGKILL

datatype kill_target = ChildOnly | ProcessGroup

datatype effect =
    WriteFile string string
  | Chmod string string
  | Unlink string
  | Spawn string "string list" nat
  | StdinWrite string
  | StdinEnd
  | Kill kill_target signal

text \<open>
  What happens to a spawned child, in the order the event loop delivers it: output
  chunks, the timer of \<open>spawn\<close>'s \<open>timeout\<close> option, the timer the runner
  sets with \<open>setTimeout\<close>, the exit of the child, and the \<open>close\<close> and
  \<open>error\<close> events (each with the value \<open>Date.now()\<close> has when it is
  handled). Node emits \<open>close\<close> after \<open>exit\<close>, or, when the child could
  not be spawned, after the \<open>error\<close> that reports it, with no \<open>exit\<close>
  then. A \<open>close\<close> that finds the promise unsettled has therefore followed an
  exit, which has cleared Node's timer; an exit that comes after some other
  \<open>error\<close> is the event \<open>Exit\<close>.
\<close>

datatype proc_event =
    StdoutData string
  | StderrData string
  | SpawnTimeoutFires
  | TimerFires
  | Exit
  | Close "int option" int
  | ProcError string int

record proc_state =
  buf_stdout :: string
  buf_stderr :: string
  killed :: bool
  timeoutId_active :: bool
  spawn_timeout_active :: bool
  resolved :: "ExecutionResult option"
  emitted :: "effect list"

text \<open>A promise is settled by the first call of \<open>resolve\<close>; later calls do nothing.\<close>

definition resolve :: "ExecutionResult \<Rightarrow> proc_state \<Rightarrow> proc_state" where
  "resolve r s = (if resolved s = None then s\<lparr>resolved := Some r\<rparr> else s)"

fun on_event :: "nat \<Rightarrow> int \<Rightarrow> proc_state \<Rightarrow> proc_event \<Rightarrow> proc_state" where
  "on_event tmo startTime s (StdoutData d) = s\<lparr>buf_stdout := buf_stdout s @ d\<rparr>"
| "on_event tmo startTime s (StderrData d) = s\<lparr>buf_stderr := buf_stderr s @ d\<rparr>"
| "on_event tmo startTime s SpawnTimeoutFires =
     (if spawn_timeout_active s
      then s\<lparr>spawn_timeout_active := False,
             emitted := emitted s @ [Kill ChildOnly SIGTERM]\<rparr>
      else s)"
| "on_event tmo startTime s TimerFires =
     (if timeoutId_active s
      then s\<lparr>killed := True, timeoutId_active := False,
             emitted := emitted s @ [Kill ChildOnly SIGTERM]\<rparr>
      else s)"
| "on_event tmo startTime s Exit = s\<lparr>spawn_timeout_active := False\<rparr>"
| "on_event tmo startTime s (Close code t) =
     resolve
       (if killed s
        then \<lparr>status = Timeout, stdout = buf_stdout s,
              stderr = buf_stderr s @ ''\<newline>Execution timed out after '' @ string_of_nat tmo @ ''ms'',
              exitCode = 124, executionTimeMs = t - startTime\<rparr>
        else \<lparr>status = (if code = Some 0 then Success else Error),
              stdout = buf_stdout s, stderr = buf_stderr s,
              exitCode = (case code of None \<Rightarrow> 0 | Some c \<Rightarrow> c),
              executionTimeMs = t - startTime\<rparr>)
       (s\<lparr>timeoutId_active := False,
          spawn_timeout_active := spawn_timeout_active s \<and> resolved s \<noteq> None\<rparr>)"
| "on_event tmo startTime s (ProcError msg t) =
     resolve
       \<lparr>status = Error, stdout = '''', stderr = msg, exitCode = 1,
        executionTimeMs = t - startTime\<rparr>
       (s\<lparr>timeoutId_active := False\<rparr>)"

definition spawn_state :: "string \<Rightarrow> string list \<Rightarrow> nat \<Rightarrow> ExecutionOptions \<Rightarrow> proc_state" where
  "spawn_state command args tmo options =
     \<lparr>buf_stdout = '''', buf_stderr = '''', killed = False, timeoutId_active = True,
      spawn_timeout_active = True, resolved = None,
      emitted = [Spawn command args tmo]
        @ (case stdin options of None \<Rightarrow> [] | Some i \<Rightarrow> if i = '''' then [] else [StdinWrite i])
        @ [StdinEnd]\<rparr>"

text \<open>
  \<open>executeWithProcess\<close>: the effects it performs and the value its promise resolves
  to; \<open>None\<close> when the events never settle the promise.
\<close>

definition executeWithProcess ::
  "string \<Rightarrow> string list \<Rightarrow> string \<Rightarrow> ExecutionOptions \<Rightarrow> int \<Rightarrow> proc_event list
     \<Rightarrow> effect list \<times> ExecutionResult option" where
  "executeWithProcess command args code options startTime events =
     (let tmo = timeout_or options 30000;
          s = foldl (on_event tmo startTime) (spawn_state command args tmo options) events
      in (emitted s, resolved s))"

subsection \<open>The environment of one run\<close>

datatype spawn_outcome = SpawnThrows | Spawned "proc_event list"

text \<open>
  What running a script in the sandbox comes to: it returns (with the console output
  captured), it is interrupted by the timeout, it throws a value from which the
  \<open>catch\<close> block of \<open>executeJavaScript\<close> gets a message, or it throws a value
  on which that block throws in turn, while it reads \<open>error.code\<close> and
  \<open>error.message\<close> or evaluates \<open>String(error)\<close>; the promise then rejects
  with what was thrown there.
\<close>

datatype vm_outcome =
    VmReturns string string int
  | VmTimeout int
  | VmThrows string int
  | VmCatchThrows rejection

text \<open>
  \<open>now\<close> is \<open>Date.now()\<close> where a temp file is named, \<open>started\<close> where an
  execution reads its start time; \<open>write_ok k\<close> tells whether the \<open>k\<close>-th
  \<open>writeFileSync\<close> of the run succeeds; \<open>procs\<close> gives, per command, what
  \<open>spawn\<close> and the child do; \<open>vm\<close> is the outcome of compiling and running a
  script in the sandbox under a timeout. The regular-expression erasure of type
  annotations in \<open>executeTypeScript\<close> is the parameter \<open>strip_types\<close>.
\<close>

record run_env =
  tmpdir :: string
  now :: nat
  started :: int
  write_ok :: "nat \<Rightarrow> bool"
  chmod_ok :: bool
  procs :: "string \<Rightarrow> spawn_outcome"
  vm :: "string \<Rightarrow> nat \<Rightarrow> vm_outcome"
  strip_types :: "string \<Rightarrow> string"

definition TEMP_DIR :: "run_env \<Rightarrow> string" where
  "TEMP_DIR env = path_join (tmpdir env) ''ai-ide-runner''"

definition executeJavaScript ::
  "run_env \<Rightarrow> string \<Rightarrow> ExecutionOptions
     \<Rightarrow> effect list \<times> (rejection, ExecutionResult) promise" where
  "executeJavaScript env code options =
     (let tmo = timeout_or options 10000 in
      ([], case vm env code tmo of
          VmReturns out err t \<Rightarrow>
            Resolves
              \<lparr>status = Success,
               stdout = (if out = '''' then ''Code executed successfully (no output)'' else out),
               stderr = err, exitCode = 0, executionTimeMs = t - started env\<rparr>
        | VmTimeout t \<Rightarrow>
            Resolves
              \<lparr>status = Timeout, stdout = '''',
               stderr = ''Execution timed out after '' @ string_of_nat tmo @ ''ms'',
               exitCode = 124, executionTimeMs = t - started env\<rparr>
        | VmThrows msg t \<Rightarrow>
            Resolves
              \<lparr>status = Error, stdout = '''', stderr = msg, exitCode = 1,
               executionTimeMs = t - started env\<rparr>
        | VmCatchThrows thrown \<Rightarrow> Rejects thrown))"

definition executeTypeScript ::
  "run_env \<Rightarrow> string \<Rightarrow> ExecutionOptions
     \<Rightarrow> effect list \<times> (rejection, ExecutionResult) promise" where
  "executeTypeScript env code options = executeJavaScript env (strip_types env code) options"

text \<open>
  One pass through a \<open>try\<close> block of a file-based executor: write the temp file,
  (for the shell) make it executable, spawn, await. The block either throws, never
  gets past its \<open>await\<close>, or yields the result.
\<close>

datatype 'a attempt = Threw | Hangs | Returned 'a

definition try_run ::
  "run_env \<Rightarrow> nat \<Rightarrow> bool \<Rightarrow> string \<Rightarrow> string \<Rightarrow> string \<Rightarrow> ExecutionOptions
     \<Rightarrow> effect list \<times> ExecutionResult attempt" where
  "try_run env k chmod command tempFile code options =
     (if \<not> write_ok env k then ([], Threw)
      else if chmod \<and> \<not> chmod_ok env then ([WriteFile tempFile code], Threw)
      else
        (let pre = [WriteFile tempFile code] @ (if chmod then [Chmod tempFile ''755''] else [])
         in case procs env command of
              SpawnThrows \<Rightarrow> (pre, Threw)
            | Spawned events \<Rightarrow>
                (case executeWithProcess command [tempFile] code options (started env) events of
                   (effs, None) \<Rightarrow> (pre @ effs, Hangs)
                 | (effs, Some r) \<Rightarrow> (pre @ effs, Returned r))))"

definition not_found :: "string \<Rightarrow> ExecutionResult" where
  "not_found msg =
     \<lparr>status = Error, stdout = '''', stderr = msg, exitCode = 1, executionTimeMs = 0\<rparr>"

definition tempFile_for :: "run_env \<Rightarrow> string \<Rightarrow> string \<Rightarrow> string" where
  "tempFile_for env prefix ext =
     path_join (TEMP_DIR env) (prefix @ ''_'' @ string_of_nat (now env) @ ext)"

definition executePython ::
  "run_env \<Rightarrow> string \<Rightarrow> ExecutionOptions \<Rightarrow> effect list \<times> ExecutionResult option" where
  "executePython env code options =
     (let tempFile = tempFile_for env ''python'' ''.py'' in
      case try_run env 0 False ''python3'' tempFile code options of
        (e1, Returned r) \<Rightarrow> (e1 @ [Unlink tempFile], Some r)
      | (e1, Hangs) \<Rightarrow> (e1, None)
      | (e1, Threw) \<Rightarrow>
          (case try_run env 1 False ''python'' tempFile code options of
             (e2, Returned r) \<Rightarrow> (e1 @ [Unlink tempFile] @ e2 @ [Unlink tempFile], Some r)
           | (e2, Hangs) \<Rightarrow> (e1 @ [Unlink tempFile] @ e2, None)
           | (e2, Threw) \<Rightarrow>
               (e1 @ [Unlink tempFile] @ e2,
                Some (not_found
                  ''Python interpreter not found. Please install Python to execute Python code locally.''))))"

text \<open>The remaining file-based executors share one shape.\<close>

definition execute_script ::
  "run_env \<Rightarrow> string \<Rightarrow> string \<Rightarrow> bool \<Rightarrow> string \<Rightarrow> string \<Rightarrow> string \<Rightarrow> ExecutionOptions
     \<Rightarrow> effect list \<times> ExecutionResult option" where
  "execute_script env prefix ext chmod command msg code options =
     (let tempFile = tempFile_for env prefix ext in
      case try_run env 0 chmod command tempFile code options of
        (e1, Returned r) \<Rightarrow> (e1 @ [Unlink tempFile], Some r)
      | (e1, Hangs) \<Rightarrow> (e1, None)
      | (e1, Threw) \<Rightarrow> (e1 @ [Unlink tempFile], Some (not_found msg)))"

definition executeRuby ::
  "run_env \<Rightarrow> string \<Rightarrow> ExecutionOptions \<Rightarrow> effect list \<times> ExecutionResult option" where
  "executeRuby env code options =
     execute_script env ''ruby'' ''.rb'' False ''ruby''
       ''Ruby interpreter not found. Please install Ruby to execute Ruby code locally.''
       code options"

definition executePHP ::
  "run_env \<Rightarrow> string \<Rightarrow> ExecutionOptions \<Rightarrow> effect list \<times> ExecutionResult option" where
  "executePHP env code options =
     execute_script env ''php'' ''.php'' False ''php''
       ''PHP interpreter not found. Please install PHP to execute PHP code locally.''
       code options"

definition executeShell ::
  "run_env \<Rightarrow> string \<Rightarrow> ExecutionOptions \<Rightarrow> effect list \<times> ExecutionResult option" where
  "executeShell env code options =
     execute_script env ''shell'' ''.sh'' True ''bash'' ''Bash shell not available.''
       code options"

definition executeLua ::
  "run_env \<Rightarrow> string \<Rightarrow> ExecutionOptions \<Rightarrow> effect list \<times> ExecutionResult option" where
  "executeLua env code options =
     execute_script env ''lua'' ''.lua'' False ''lua''
       ''Lua interpreter not found. Please install Lua to execute Lua code locally.''
       code options"

definition executePerl ::
  "run_env \<Rightarrow> string \<Rightarrow> ExecutionOptions \<Rightarrow> effect list \<times> ExecutionResult option" where
  "executePerl env code options =
     execute_script env ''perl'' ''.pl'' False ''perl''
       ''Perl interpreter not found. Please install Perl to execute Perl code locally.''
       code options"

text \<open>
  The message of the default branch of \<open>runCode\<close>. The pictograph that opens its
  second paragraph is outside ASCII and is written as its four UTF-8 bytes.
\<close>

definition memo_sign :: string where
  "memo_sign = [CHR 0xF0, CHR 0x9F, CHR 0x93, CHR 0x9D]"

definition code_preview :: "string \<Rightarrow> string" where
  "code_preview code = substring0 500 code @ (if length code > 500 then ''...'' else '''')"

definition syntax_valid_message :: "string \<Rightarrow> string \<Rightarrow> string" where
  "syntax_valid_message language code =
     ''Code syntax for '' @ language @ '' appears valid!\<newline>\<newline>''
     @ memo_sign @ '' For full '' @ language
     @ '' compilation, the Judge0 API or a local compiler is required.\<newline>\<newline>''
     @ ''Code preview:\<newline>'' @ code_preview code"

text \<open>
  \<open>runCode\<close> returns the promise of the executor it dispatches to. The executors
  that spawn a process catch whatever they meet, so their promises resolve or never
  settle; the promise of \<open>executeJavaScript\<close> can also reject.
\<close>

definition runCode ::
  "run_env \<Rightarrow> string \<Rightarrow> string \<Rightarrow> ExecutionOptions
     \<Rightarrow> effect list \<times> (rejection, ExecutionResult) promise" where
  "runCode env language code options =
     (let normalizedLanguage = toLowerCase language in
      if normalizedLanguage = ''javascript'' \<or> normalizedLanguage = ''js''
        then executeJavaScript env code options
      else if normalizedLanguage = ''typescript'' \<or> normalizedLanguage = ''ts''
        then executeTypeScript env code options
      else if normalizedLanguage = ''python'' \<or> normalizedLanguage = ''python3''
              \<or> normalizedLanguage = ''py''
        then apsnd settled (executePython env code options)
      else if normalizedLanguage = ''ruby'' \<or> normalizedLanguage = ''rb''
        then apsnd settled (executeRuby env code options)
      else if normalizedLanguage = ''php''
        then apsnd settled (executePHP env code options)
      else if normalizedLanguage = ''shell'' \<or> normalizedLanguage = ''bash''
              \<or> normalizedLanguage = ''sh''
        then apsnd settled (executeShell env code options)
      else if normalizedLanguage = ''lua''
        then apsnd settled (executeLua env code options)
      else if normalizedLanguage = ''perl'' \<or> normalizedLanguage = ''pl''
        then apsnd settled (executePerl env code options)
      else
        ([], Resolves \<lparr>status = Success, stdout = syntax_valid_message language code,
                       stderr = '''', exitCode = 0, executionTimeMs = 0\<rparr>))"

text \<open>The language names the dispatch of \<open>runCode\<close> has a case for.\<close>

definition dispatched :: "string list" where
  "dispatched =
     [''javascript'', ''js'', ''typescript'', ''ts'', ''python'', ''python3'', ''py'',
      ''ruby'', ''rb'', ''php'', ''shell'', ''bash'', ''sh'', ''lua'', ''perl'', ''pl'']"

section \<open>The compile routes (routes/compile)\<close>

record source_file =
  path :: string
  content :: string

record lang_config =
  extension :: string
  runCommand :: string
  compileCommand :: "string option"

definition LANGUAGE_CONFIGS :: "(string \<times> lang_config) list" where
  "LANGUAGE_CONFIGS =
     [(''javascript'', \<lparr>extension = ''.js'', runCommand = ''node'', compileCommand = None\<rparr>),
      (''typescript'', \<lparr>extension = ''.ts'', runCommand = ''ts-node'', compileCommand = None\<rparr>),
      (''python'', \<lparr>extension = ''.py'', runCommand = ''python3'', compileCommand = None\<rparr>),
      (''cpp'', \<lparr>extension = ''.cpp'', runCommand = ''./a.out'', compileCommand = Some ''g++''\<rparr>),
      (''c'', \<lparr>extension = ''.c'', runCommand = ''./a.out'', compileCommand = Some ''gcc''\<rparr>),
      (''rust'', \<lparr>extension = ''.rs'', runCommand = ''./main'', compileCommand = Some ''rustc''\<rparr>),
      (''go'', \<lparr>extension = ''.go'', runCommand = ''./main'', compileCommand = Some ''go build''\<rparr>),
      (''java'', \<lparr>extension = ''.java'', runCommand = ''java Main'', compileCommand = Some ''javac''\<rparr>),
      (''kotlin'', \<lparr>extension = ''.kt'', runCommand = ''kotlin MainKt'', compileCommand = Some ''kotlinc''\<rparr>),
      (''scala'', \<lparr>extension = ''.scala'', runCommand = ''scala Main'', compileCommand = Some ''scalac''\<rparr>),
      (''csharp'', \<lparr>extension = ''.cs'', runCommand = ''dotnet run'', compileCommand = Some ''dotnet build''\<rparr>),
      (''fsharp'', \<lparr>extension = ''.fs'', runCommand = ''dotnet run'', compileCommand = Some ''dotnet build''\<rparr>),
      (''php'', \<lparr>extension = ''.php'', runCommand = ''php'', compileCommand = None\<rparr>),
      (''ruby'', \<lparr>extension = ''.rb'', runCommand = ''ruby'', compileCommand = None\<rparr>),
      (''perl'', \<lparr>extension = ''.pl'', runCommand = ''perl'', compileCommand = None\<rparr>),
      (''lua'', \<lparr>extension = ''.lua'', runCommand = ''lua'', compileCommand = None\<rparr>),
      (''shell'', \<lparr>extension = ''.sh'', runCommand = ''bash'', compileCommand = None\<rparr>),
      (''powershell'', \<lparr>extension = ''.ps1'', runCommand = ''pwsh'', compileCommand = None\<rparr>),
      (''haskell'', \<lparr>extension = ''.hs'', runCommand = ''./main'', compileCommand = Some ''ghc''\<rparr>),
      (''ocaml'', \<lparr>extension = ''.ml'', runCommand = ''./main'', compileCommand = Some ''ocamlc''\<rparr>),
      (''clojure'', \<lparr>extension = ''.clj'', runCommand = ''clojure'', compileCommand = None\<rparr>),
      (''swift'', \<lparr>extension = ''.swift'', runCommand = ''./main'', compileCommand = Some ''swiftc''\<rparr>),
      (''dart'', \<lparr>extension = ''.dart'', runCommand = ''dart'', compileCommand = None\<rparr>),
      (''r'', \<lparr>extension = ''.r'', runCommand = ''Rscript'', compileCommand = None\<rparr>),
      (''julia'', \<lparr>extension = ''.jl'', runCommand = ''julia'', compileCommand = None\<rparr>),
      (''nim'', \<lparr>extension = ''.nim'', runCommand = ''./main'', compileCommand = Some ''nim c''\<rparr>),
      (''zig'', \<lparr>extension = ''.zig'', runCommand = ''./main'', compileCommand = Some ''zig build-exe''\<rparr>),
      (''v'', \<lparr>extension = ''.v'', runCommand = ''./main'', compileCommand = Some ''v''\<rparr>)]"

definition languageMap :: "(string \<times> nat) list" where
  "languageMap =
     [(''javascript'', 63), (''python'', 71), (''cpp'', 54), (''c'', 50), (''java'', 62),
      (''typescript'', 74), (''csharp'', 51), (''php'', 68), (''ruby'', 72), (''go'', 60),
      (''rust'', 73), (''kotlin'', 78), (''scala'', 81), (''swift'', 83), (''r'', 80),
      (''haskell'', 61), (''lua'', 64), (''perl'', 85), (''dart'', 90)]"

text \<open>
  \<open>languageMap[language] || null\<close>: a number for a key of the map, an inherited
  function or object (truthy, and not a number) for an inherited name, \<open>null\<close>
  otherwise. No number of the map is zero.
\<close>

datatype language_id = Numbered nat | NotANumber

definition getJudge0LanguageId :: "string \<Rightarrow> language_id option" where
  "getJudge0LanguageId language =
     (case get_property languageMap language of
        Own n \<Rightarrow> if n = 0 then None else Some (Numbered n)
      | Inherited \<Rightarrow> Some NotANumber
      | Undefined \<Rightarrow> None)"

text \<open>
  A job object of the \<open>compilationJobs\<close> map. The handler creates it with the first
  eight fields; \<open>stdin\<close> is read by \<open>processCompilation\<close> but never written, and
  the remaining fields are absent until \<open>Object.assign\<close> sets them.
\<close>

record job =
  job_id :: string
  job_userId :: string
  job_workspaceId :: string
  job_language :: string
  job_sourceFiles :: "source_file list"
  job_compilerOptions :: string
  job_status :: status
  job_createdAt :: nat
  job_stdin :: "string option"
  job_stdout :: "string option"
  job_stderr :: "string option"
  job_exitCode :: "int option"
  job_completedAt :: "nat option"
  job_executionTimeMs :: "int option"
  job_memoryUsedKb :: "int option"

type_synonym job_store = "string \<rightharpoonup> job"

text \<open>
  The JSON body of a submission. A field is \<open>None\<close> when it is absent;
  \<open>body_sourceFiles\<close> is also \<open>None\<close> when the value is not an array. An
  empty string is falsy, an empty array is not. The compiler options are an opaque
  JSON text. A field that is present holds a value of its declared type: the
  identifiers and the language are strings, a source file has a string as its path and
  as its content.
\<close>

record compile_body =
  body_workspaceId :: "string option"
  body_language :: "string option"
  body_sourceFiles :: "source_file list option"
  body_compilerOptions :: "string option"

text \<open>\<open>x || ''\<close> for an optional string.\<close>

definition or_empty :: "string option \<Rightarrow> string" where
  "or_empty x = (case x of None \<Rightarrow> '''' | Some s \<Rightarrow> s)"

record job_view =
  view_id :: string
  view_language :: string
  view_status :: status
  view_stdout :: "string option"
  view_stderr :: "string option"
  view_exitCode :: "int option"
  view_executionTimeMs :: "int option"
  view_memoryUsedKb :: "int option"
  view_createdAt :: nat
  view_completedAt :: "nat option"

datatype response =
    Status400 string
  | Status404 string
  | Status202 string status string
  | Status200 job_view

subsection \<open>The remote judge, as \<open>processCompilation\<close> sees it\<close>

text \<open>
  The body of a Judge0 answer. \<open>time\<close> is carried in milliseconds, as
  \<open>Math.round(time * 1000)\<close> leaves it (the floating-point product is not
  modelled); an absent field is \<open>None\<close>.
\<close>

record judge0_result =
  status_id :: "int option"
  j0_stdout :: "string option"
  j0_stderr :: "string option"
  compile_output :: "string option"
  time_ms :: "int option"
  memory :: "int option"

text \<open>
  \<open>fetch\<close> either throws, or answers with \<open>ok\<close> false, or answers with
  \<open>ok\<close> true and a body: \<open>Some\<close> a body whose fields can be read,
  \<open>None\<close> one on which \<open>json()\<close> throws or which parses to \<open>null\<close>, so
  that reading its status throws.
\<close>

datatype fetch_outcome = FetchThrows | FetchNotOk | FetchOk "judge0_result option"

text \<open>
  \<open>runner\<close> is the environment of the first local run of a job, \<open>rerun\<close> that
  of the second, which happens when the first was started for a response that is not
  \<open>ok\<close> and its promise rejected.
\<close>

record pc_env =
  fetch :: "language_id \<Rightarrow> string \<Rightarrow> string \<Rightarrow> fetch_outcome"
  runner :: run_env
  rerun :: run_env
  completion_time :: nat
  random_ms :: int
  random_kb :: int

record local_result =
  lr_status :: status
  lr_stdout :: string
  lr_stderr :: string
  lr_exitCode :: int

text \<open>\<open>error.message || 'Execution failed'\<close>.\<close>

definition message_or_failed :: "string option \<Rightarrow> string" where
  "message_or_failed m = (if or_empty m = '''' then ''Execution failed'' else or_empty m)"

text \<open>
  \<open>executeLocally\<close> calls \<open>runCode\<close> with a 30 second timeout and keeps four
  fields of its result. When the promise of \<open>runCode\<close> rejects, its \<open>catch\<close>
  answers with an error result made of the message of the value thrown; when that
  message cannot be read the \<open>catch\<close> throws and the promise of
  \<open>executeLocally\<close> rejects in turn (with a value nobody reads).
\<close>

definition executeLocally ::
  "run_env \<Rightarrow> string \<Rightarrow> string \<Rightarrow> string option
     \<Rightarrow> effect list \<times> (unit, local_result) promise" where
  "executeLocally env language sourceCode stdin_opt =
     (case runCode env language sourceCode
             \<lparr>timeout = Some 30000, memoryLimit = None, stdin = stdin_opt\<rparr> of
        (effs, Resolves result) \<Rightarrow>
          (effs, Resolves \<lparr>lr_status = status result, lr_stdout = stdout result,
                          lr_stderr = stderr result, lr_exitCode = exitCode result\<rparr>)
      | (effs, Never) \<Rightarrow> (effs, Never)
      | (effs, Rejects (Readable m)) \<Rightarrow>
          (effs, Resolves \<lparr>lr_status = Error, lr_stdout = '''',
                          lr_stderr = message_or_failed m, lr_exitCode = 1\<rparr>)
      | (effs, Rejects Unreadable) \<Rightarrow> (effs, Rejects ()))"

text \<open>\<open>job.sourceFiles[0]?.content || ''\<close>.\<close>

definition first_content :: "job \<Rightarrow> string" where
  "first_content j = (case job_sourceFiles j of [] \<Rightarrow> '''' | f # _ \<Rightarrow> content f)"

text \<open>
  \<open>Object.assign(job, result, {completedAt, executionTimeMs, memoryUsedKb})\<close>, the
  last two drawn at random.
\<close>

definition assign_local :: "pc_env \<Rightarrow> job \<Rightarrow> local_result \<Rightarrow> job" where
  "assign_local env j result =
     j\<lparr>job_status := lr_status result,
       job_stdout := Some (lr_stdout result),
       job_stderr := Some (lr_stderr result),
       job_exitCode := Some (lr_exitCode result),
       job_completedAt := Some (completion_time env),
       job_executionTimeMs := Some (random_ms env),
       job_memoryUsedKb := Some (random_kb env)\<rparr>"

text \<open>
  The \<open>catch\<close> block of \<open>processCompilation\<close>: a local run in a \<open>try\<close> of
  its own, whose \<open>catch\<close> marks the job with \<open>Compilation service unavailable\<close>
  and leaves stdout and exit code as they are.
\<close>

definition catch_fallback :: "pc_env \<Rightarrow> run_env \<Rightarrow> job \<Rightarrow> effect list \<times> job option" where
  "catch_fallback env renv j =
     (case executeLocally renv (job_language j) (first_content j) (job_stdin j) of
        (effs, Resolves result) \<Rightarrow> (effs, Some (assign_local env j result))
      | (effs, Never) \<Rightarrow> (effs, None)
      | (effs, Rejects u) \<Rightarrow>
          (effs, Some (j\<lparr>job_status := Error,
                        job_stderr := Some ''Compilation service unavailable'',
                        job_completedAt := Some (completion_time env)\<rparr>)))"

text \<open>
  The branch for a response that is not \<open>ok\<close>: a local run inside the outer
  \<open>try\<close>, so that a rejection of it enters the \<open>catch\<close> block, which runs the
  source again.
\<close>

definition not_ok_fallback :: "pc_env \<Rightarrow> job \<Rightarrow> effect list \<times> job option" where
  "not_ok_fallback env j =
     (case executeLocally (runner env) (job_language j) (first_content j) (job_stdin j) of
        (effs, Resolves result) \<Rightarrow> (effs, Some (assign_local env j result))
      | (effs, Never) \<Rightarrow> (effs, None)
      | (effs, Rejects u) \<Rightarrow>
          (case catch_fallback env (rerun env) j of
             (effs', final) \<Rightarrow> (effs @ effs', final)))"

definition remote_result :: "pc_env \<Rightarrow> job \<Rightarrow> judge0_result \<Rightarrow> job" where
  "remote_result env j r =
     j\<lparr>job_status := (if status_id r = Some 3 then Success else Error),
       job_stdout := Some (or_empty (j0_stdout r)),
       job_stderr := Some (if or_empty (j0_stderr r) \<noteq> '''' then or_empty (j0_stderr r)
                           else or_empty (compile_output r)),
       job_exitCode := Some (if status_id r = Some 3 then 0 else 1),
       job_completedAt := Some (completion_time env),
       job_executionTimeMs := Some (case time_ms r of None \<Rightarrow> 0 | Some t \<Rightarrow> t),
       job_memoryUsedKb := Some (case memory r of None \<Rightarrow> 0 | Some m \<Rightarrow> m)\<rparr>"

text \<open>
  \<open>processCompilation\<close> on the job object: the job as the first statement leaves it
  (\<open>running\<close>), the effects of the local runner, and the job as the last assignment
  leaves it, \<open>None\<close> when the function never gets there. A language without a
  Judge0 id, a \<open>fetch\<close> that throws and a body that cannot be read all throw
  inside the \<open>try\<close> and enter the \<open>catch\<close> block.
\<close>

definition processCompilation :: "pc_env \<Rightarrow> job \<Rightarrow> job \<times> effect list \<times> job option" where
  "processCompilation env j0 =
     (let j = j0\<lparr>job_status := Running\<rparr> in
      (j,
       case getJudge0LanguageId (job_language j) of
         None \<Rightarrow> catch_fallback env (runner env) j
       | Some languageId \<Rightarrow>
           (case fetch env languageId (first_content j) (or_empty (job_stdin j)) of
              FetchThrows \<Rightarrow> catch_fallback env (runner env) j
            | FetchNotOk \<Rightarrow> not_ok_fallback env j
            | FetchOk None \<Rightarrow> catch_fallback env (runner env) j
            | FetchOk (Some r) \<Rightarrow> ([], Some (remote_result env j r)))))"

subsection \<open>The handlers\<close>

record api_env =
  uuid :: string
  request_time :: nat
  pc :: pc_env

definition new_job :: "api_env \<Rightarrow> string \<Rightarrow> string \<Rightarrow> string \<Rightarrow> source_file list \<Rightarrow> string option \<Rightarrow> job" where
  "new_job env userId workspaceId language sourceFiles compilerOptions =
     \<lparr>job_id = uuid env, job_userId = userId, job_workspaceId = workspaceId,
      job_language = language, job_sourceFiles = sourceFiles,
      job_compilerOptions = (case compilerOptions of None \<Rightarrow> ''{}'' | Some c \<Rightarrow> c),
      job_status = Pending, job_createdAt = request_time env,
      job_stdin = None, job_stdout = None, job_stderr = None, job_exitCode = None,
      job_completedAt = None, job_executionTimeMs = None, job_memoryUsedKb = None\<rparr>"

text \<open>
  The handler of \<open>POST /\<close>. It answers with the response and leaves the store as
  returned: \<open>processCompilation\<close> has then run up to its first \<open>await\<close>, so the
  stored job is \<open>running\<close>. The third component is the successive values of the job
  object, from creation to the last assignment of \<open>processCompilation\<close>.
\<close>

definition post_compile ::
  "api_env \<Rightarrow> string \<Rightarrow> compile_body \<Rightarrow> job_store \<Rightarrow> response \<times> job_store \<times> job list" where
  "post_compile env userId body store =
     (case (body_workspaceId body, body_language body, body_sourceFiles body) of
        (Some workspaceId, Some language, Some sourceFiles) \<Rightarrow>
          if workspaceId = '''' \<or> language = ''''
          then (Status400 ''Invalid request parameters'', store, [])
          else
            (case get_property LANGUAGE_CONFIGS language of
               Undefined \<Rightarrow> (Status400 (''Unsupported language: '' @ language), store, [])
             | langConfig \<Rightarrow>
                 (let j = new_job env userId workspaceId language sourceFiles
                            (body_compilerOptions body);
                      (running, effs, final) = processCompilation (pc env) j
                  in (Status202 (uuid env) Pending ''Compilation job submitted'',
                      store(uuid env \<mapsto> running),
                      [j, running] @ (case final of None \<Rightarrow> [] | Some f \<Rightarrow> [f]))))
      | _ \<Rightarrow> (Status400 ''Invalid request parameters'', store, []))"

definition view_of :: "job \<Rightarrow> job_view" where
  "view_of j =
     \<lparr>view_id = job_id j, view_language = job_language j, view_status = job_status j,
      view_stdout = job_stdout j, view_stderr = job_stderr j, view_exitCode = job_exitCode j,
      view_executionTimeMs = job_executionTimeMs j, view_memoryUsedKb = job_memoryUsedKb j,
      view_createdAt = job_createdAt j, view_completedAt = job_completedAt j\<rparr>"

text \<open>The handler of \<open>GET /:jobId\<close>.\<close>

definition get_compile :: "string \<Rightarrow> string \<Rightarrow> job_store \<Rightarrow> response" where
  "get_compile userId jobId store =
     (case store jobId of
        None \<Rightarrow> Status404 ''Compilation job not found''
      | Some j \<Rightarrow>
          if job_userId j \<noteq> userId then Status404 ''Compilation job not found''
          else Status200 (view_of j))"

section \<open>The compilation service (CompilationService, Judge0 only)\<close>

subsection \<open>Pattern tests\<close>

text \<open>
  The regular expressions of \<open>scanForMaliciousCode\<close> are sequences of literals,
  \<open>\s*\<close> and \<open>\s+\<close>, all with the flag \<open>i\<close>. \<open>str_includes\<close> is
  \<open>String.prototype.includes\<close>.
\<close>

datatype pat_item = Lit string | WsStar | WsPlus

definition is_space :: "char \<Rightarrow> bool" where
  "is_space c =
     (c \<in> set [CHR 0x09, CHR 0x0A, CHR 0x0B, CHR 0x0C, CHR 0x0D, CHR 0x20, CHR 0xA0])"

fun match_lit :: "bool \<Rightarrow> string \<Rightarrow> string \<Rightarrow> string option" where
  "match_lit ci [] s = Some s"
| "match_lit ci (p # ps) [] = None"
| "match_lit ci (p # ps) (c # cs) =
     (if (if ci then toLowerCase_char c = toLowerCase_char p else c = p)
      then match_lit ci ps cs else None)"

fun match_here :: "pat_item list \<Rightarrow> string \<Rightarrow> bool" where
  "match_here [] s = True"
| "match_here (Lit l # ps) s =
     (case match_lit True l s of None \<Rightarrow> False | Some rest \<Rightarrow> match_here ps rest)"
| "match_here (WsStar # ps) s =
     (match_here ps s
      \<or> (case s of [] \<Rightarrow> False | c # cs \<Rightarrow> is_space c \<and> match_here (WsStar # ps) cs))"
| "match_here (WsPlus # ps) s =
     (case s of [] \<Rightarrow> False | c # cs \<Rightarrow> is_space c \<and> match_here (WsStar # ps) cs)"

fun regex_test :: "pat_item list \<Rightarrow> string \<Rightarrow> bool" where
  "regex_test p [] = match_here p []"
| "regex_test p (c # cs) = (match_here p (c # cs) \<or> regex_test p cs)"

fun str_includes :: "string \<Rightarrow> string \<Rightarrow> bool" where
  "str_includes [] needle = (needle = [])"
| "str_includes (c # cs) needle = (match_lit False needle (c # cs) \<noteq> None \<or> str_includes cs needle)"

definition maliciousPatterns :: "pat_item list list" where
  "maliciousPatterns =
     [[Lit ''system'', WsStar, Lit ''(''],
      [Lit ''exec'', WsStar, Lit ''(''],
      [Lit ''eval'', WsStar, Lit ''(''],
      [Lit ''import'', WsPlus, Lit ''os''],
      [Lit ''subprocess''],
      [Lit ''__import__''],
      [Lit ''file'', WsStar, Lit ''(''],
      [Lit ''open'', WsStar, Lit ''(''],
      [Lit ''socket''],
      [Lit ''urllib''],
      [Lit ''requests'']]"

subsection \<open>Requests and validation\<close>

record compiler_options =
  flags :: "string option"
  optimizationLevel :: "string option"
  debugInfo :: "bool option"

record CompilationRequest =
  req_workspaceId :: string
  req_language :: string
  req_sourceFiles :: "source_file list"
  req_compilerOptions :: "compiler_options option"
  req_input :: "string option"

text \<open>
  \<open>scanForMaliciousCode\<close> returns nothing and has no \<open>throw\<close>: all it does is
  call \<open>logger.warn\<close>, once for every file and pattern that match. The value is the
  list of those log lines.
\<close>

definition scanForMaliciousCode :: "source_file list \<Rightarrow> string list" where
  "scanForMaliciousCode files =
     concat (map (\<lambda>file.
        map (\<lambda>pattern. ''Potentially malicious code detected in '' @ path file)
            (filter (\<lambda>pattern. regex_test pattern (content file)) maliciousPatterns))
        files)"

definition totalSize :: "source_file list \<Rightarrow> nat" where
  "totalSize files = foldl (\<lambda>sum file. sum + length (content file)) 0 files"

text \<open>
  \<open>validateCompilationRequest\<close>: the warnings logged, and the outcome, \<open>Inl\<close> the
  message of the error thrown.
\<close>

definition validateCompilationRequest :: "CompilationRequest \<Rightarrow> string list \<times> (string + unit)" where
  "validateCompilationRequest request =
     (if req_workspaceId request = '''' then ([], Inl ''Workspace ID is required'')
      else if req_language request = '''' then ([], Inl ''Language is required'')
      else if length (req_sourceFiles request) = 0
        then ([], Inl ''At least one source file is required'')
      else if totalSize (req_sourceFiles request) > 1024 * 1024
        then ([], Inl ''Source code size exceeds 1MB limit'')
      else (scanForMaliciousCode (req_sourceFiles request), Inr ()))"

subsection \<open>Database and cache\<close>

record svc_lang =
  judge0_id :: nat
  svc_extension :: string
  svc_compileCommand :: "string option"
  svc_runCommand :: string

text \<open>The service's own \<open>LANGUAGE_CONFIGS\<close> (the templates are left out).\<close>

definition SERVICE_LANGUAGE_CONFIGS :: "(string \<times> svc_lang) list" where
  "SERVICE_LANGUAGE_CONFIGS =
     [(''javascript'', \<lparr>judge0_id = 63, svc_extension = ''.js'', svc_compileCommand = None,
                         svc_runCommand = ''node''\<rparr>),
      (''typescript'', \<lparr>judge0_id = 74, svc_extension = ''.ts'', svc_compileCommand = Some ''tsc'',
                         svc_runCommand = ''node''\<rparr>),
      (''python'', \<lparr>judge0_id = 71, svc_extension = ''.py'', svc_compileCommand = None,
                     svc_runCommand = ''python3''\<rparr>),
      (''cpp'', \<lparr>judge0_id = 54, svc_extension = ''.cpp'', svc_compileCommand = Some ''g++'',
                  svc_runCommand = ''./a.out''\<rparr>),
      (''c'', \<lparr>judge0_id = 50, svc_extension = ''.c'', svc_compileCommand = Some ''gcc'',
                svc_runCommand = ''./a.out''\<rparr>),
      (''java'', \<lparr>judge0_id = 62, svc_extension = ''.java'', svc_compileCommand = Some ''javac'',
                   svc_runCommand = ''java Main''\<rparr>)]"

text \<open>A row of the table \<open>compilation_jobs\<close>; a column that is NULL is \<open>None\<close>.\<close>

record db_row =
  row_id :: string
  row_user_id :: string
  row_workspace_id :: string
  row_language :: string
  row_source_files :: "source_file list"
  row_compiler_options :: "compiler_options option"
  row_status :: status
  row_stdout :: "string option"
  row_stderr :: "string option"
  row_exit_code :: "int option"
  row_execution_time_ms :: "int option"
  row_memory_used_kb :: "int option"
  row_created_at :: nat
  row_completed_at :: "nat option"
  row_metadata :: "string option"

text \<open>
  The tables the service reads and writes, and the cache. A workspace row is reduced to
  its owner; a share is (workspace, user, permission level). The cache holds, under
  the key \<open>compilation:<jobId>\<close>, the JSON text of a row, here the row itself.
\<close>

record svc_state =
  compilation_jobs :: "string \<rightharpoonup> db_row"
  workspaces :: "string \<rightharpoonup> string"
  workspace_shares :: "(string \<times> string \<times> string) list"
  redis :: "string \<rightharpoonup> db_row"

definition cache_key :: "string \<Rightarrow> string" where
  "cache_key jobId = ''compilation:'' @ jobId"

datatype poll_response = PollThrows | PollData judge0_result

text \<open>
  The environment of the service: the identifier \<open>uuidv4()\<close> returns, the clock of
  the database and of the process, whether the database and the cache answer (a call
  on one that does not throws \<open>db_error\<close>), and the remote judge: the token it
  gives for a submission (\<open>None\<close> when the request throws), and its answer to the
  \<open>k\<close>-th retrieval of a token. A submission carries the language id (none when
  the configuration has no \<open>id\<close>), the source, the stdin and the compiler flags.
\<close>

record svc_env =
  svc_uuid :: string
  db_now :: nat
  svc_clock :: nat
  db_up :: bool
  redis_up :: bool
  db_error :: string
  judge0_submit :: "nat option \<Rightarrow> string \<Rightarrow> string \<Rightarrow> string \<Rightarrow> string option"
  judge0_poll :: "string \<Rightarrow> nat \<Rightarrow> poll_response"

record job_updates =
  upd_stdout :: "string option"
  upd_stderr :: "string option"
  upd_exit_code :: "int option"
  upd_execution_time_ms :: "int option"
  upd_memory_used_kb :: "int option"

definition no_updates :: job_updates where
  "no_updates =
     \<lparr>upd_stdout = None, upd_stderr = None, upd_exit_code = None,
      upd_execution_time_ms = None, upd_memory_used_kb = None\<rparr>"

text \<open>\<open>{ status, ...updates, completed_at: new Date() }\<close> applied to a row.\<close>

definition apply_updateData :: "status \<Rightarrow> job_updates \<Rightarrow> nat \<Rightarrow> db_row \<Rightarrow> db_row" where
  "apply_updateData st updates t row =
     row\<lparr>row_status := st,
         row_stdout := (case upd_stdout updates of None \<Rightarrow> row_stdout row | Some v \<Rightarrow> Some v),
         row_stderr := (case upd_stderr updates of None \<Rightarrow> row_stderr row | Some v \<Rightarrow> Some v),
         row_exit_code :=
           (case upd_exit_code updates of None \<Rightarrow> row_exit_code row | Some v \<Rightarrow> Some v),
         row_execution_time_ms :=
           (case upd_execution_time_ms updates of
              None \<Rightarrow> row_execution_time_ms row | Some v \<Rightarrow> Some v),
         row_memory_used_kb :=
           (case upd_memory_used_kb updates of
              None \<Rightarrow> row_memory_used_kb row | Some v \<Rightarrow> Some v),
         row_completed_at := Some t\<rparr>"

text \<open>\<open>updateJobStatus\<close> catches and logs whatever its body throws.\<close>

definition updateJobStatus ::
  "svc_env \<Rightarrow> string \<Rightarrow> status \<Rightarrow> job_updates \<Rightarrow> svc_state \<Rightarrow> svc_state" where
  "updateJobStatus env jobId st updates s =
     (if \<not> db_up env then s
      else
        (case compilation_jobs s jobId of
           None \<Rightarrow> s
         | Some row \<Rightarrow>
             (let job = apply_updateData st updates (svc_clock env) row;
                  s' = s\<lparr>compilation_jobs := (compilation_jobs s)(jobId \<mapsto> job)\<rparr>
              in if redis_up env then s'\<lparr>redis := (redis s')(cache_key jobId \<mapsto> job)\<rparr>
                 else s')))"

definition updateJobMetadata :: "svc_env \<Rightarrow> string \<Rightarrow> string \<Rightarrow> svc_state \<Rightarrow> svc_state" where
  "updateJobMetadata env jobId token s =
     (if \<not> db_up env then s
      else
        (case compilation_jobs s jobId of
           None \<Rightarrow> s
         | Some row \<Rightarrow>
             s\<lparr>compilation_jobs := (compilation_jobs s)(jobId \<mapsto> row\<lparr>row_metadata := Some token\<rparr>)\<rparr>))"

definition checkWorkspacePermissions ::
  "svc_env \<Rightarrow> svc_state \<Rightarrow> string \<Rightarrow> string \<Rightarrow> string + unit" where
  "checkWorkspacePermissions env s userId wsId =
     (if \<not> db_up env then Inl (db_error env)
      else
        (case workspaces s wsId of
           None \<Rightarrow> Inl ''Workspace not found''
         | Some owner \<Rightarrow>
             if owner = userId \<or> (wsId, userId, ''write'') \<in> set (workspace_shares s)
             then Inr ()
             else Inl ''Access denied to workspace''))"

text \<open>
  \<open>createCompilationJob\<close>: the insert, and the row it returns. The columns the
  insert does not name take their defaults (\<open>created_at\<close> the database's clock, the
  others NULL). An identifier already in the table violates the primary key.
\<close>

definition createCompilationJob ::
  "svc_env \<Rightarrow> string \<Rightarrow> string \<Rightarrow> CompilationRequest \<Rightarrow> svc_state \<Rightarrow> string + (db_row \<times> svc_state)" where
  "createCompilationJob env jobId userId request s =
     (if \<not> db_up env \<or> compilation_jobs s jobId \<noteq> None then Inl (db_error env)
      else
        (let row = \<lparr>row_id = jobId, row_user_id = userId,
                     row_workspace_id = req_workspaceId request, row_language = req_language request,
                     row_source_files = req_sourceFiles request,
                     row_compiler_options = req_compilerOptions request,
                     row_status = Pending, row_stdout = None, row_stderr = None,
                     row_exit_code = None, row_execution_time_ms = None,
                     row_memory_used_kb = None, row_created_at = db_now env,
                     row_completed_at = None, row_metadata = None\<rparr>
         in Inr (row, s\<lparr>compilation_jobs := (compilation_jobs s)(jobId \<mapsto> row)\<rparr>)))"

subsection \<open>Submission\<close>

fun join :: "string \<Rightarrow> string list \<Rightarrow> string" where
  "join sep [] = ''''"
| "join sep [x] = x"
| "join sep (x # y # ys) = x @ sep @ join sep (y # ys)"

definition join_files :: "string \<Rightarrow> source_file list \<Rightarrow> string" where
  "join_files comment files =
     join ''\<newline>\<newline>''
       (map (\<lambda>file. comment @ '' File: '' @ path file @ ''\<newline>'' @ content file) files)"

text \<open>
  \<open>prepareSourceCode\<close>. On an empty list (which validation excludes) the Java case
  reads \<open>sourceFiles[0].content\<close> of nothing and throws.
\<close>

definition prepareSourceCode :: "source_file list \<Rightarrow> string \<Rightarrow> string + string" where
  "prepareSourceCode files lang =
     (case files of
        [] \<Rightarrow>
          (if lang = ''java'' then Inl ''Cannot read properties of undefined (reading content)''
           else Inr '''')
      | [file] \<Rightarrow> Inr (content file)
      | first # _ \<Rightarrow>
          if lang = ''cpp'' \<or> lang = ''c'' then Inr (join_files ''//'' files)
          else if lang = ''java'' then
            (case find (\<lambda>f. str_includes (content f) ''public static void main''
                              \<or> str_includes (toLowerCase (path f)) ''main'') files of
               None \<Rightarrow> Inr (content first)
             | Some mainFile \<Rightarrow> Inr (content mainFile))
          else if lang = ''python'' then Inr (join_files ''#'' files)
          else Inr (join_files ''//'' files))"

text \<open>
  \<open>submitToJudge0\<close> turns every failure of the request into the error
  \<open>Failed to submit compilation job\<close>.
\<close>

text \<open>\<open>langConfig.id\<close>, of a configuration of the table or of an inherited value.\<close>

definition config_id :: "svc_lang property \<Rightarrow> nat option" where
  "config_id langConfig = (case langConfig of Own c \<Rightarrow> Some (judge0_id c) | _ \<Rightarrow> None)"

definition submitToJudge0 ::
  "svc_env \<Rightarrow> svc_lang property \<Rightarrow> string \<Rightarrow> compiler_options option \<Rightarrow> string option
     \<Rightarrow> string + string" where
  "submitToJudge0 env langConfig sourceCode options stdin_opt =
     (case judge0_submit env (config_id langConfig) sourceCode (or_empty stdin_opt)
             (case options of None \<Rightarrow> '''' | Some c \<Rightarrow> or_empty (flags c)) of
        None \<Rightarrow> Inl ''Failed to submit compilation job''
      | Some token \<Rightarrow> Inr token)"

subsection \<open>Polling\<close>

definition maxAttempts :: nat where
  "maxAttempts = 30"

record poll_outcome =
  po_attempts :: nat
  po_delays :: "nat list"
  po_status :: status
  po_updates :: job_updates

text \<open>\<open>result.status?.id <= 2\<close>; the comparison with an absent id is false.\<close>

definition still_processing :: "judge0_result \<Rightarrow> bool" where
  "still_processing r = (case status_id r of None \<Rightarrow> False | Some i \<Rightarrow> i \<le> 2)"

definition completed_update :: "judge0_result \<Rightarrow> status \<times> job_updates" where
  "completed_update r =
     (if status_id r = Some 3 then Success else Error,
      \<lparr>upd_stdout = Some (or_empty (j0_stdout r)),
       upd_stderr = Some (if or_empty (j0_stderr r) \<noteq> '''' then or_empty (j0_stderr r)
                          else or_empty (compile_output r)),
       upd_exit_code =
         Some (if status_id r = Some 3 then 0
               else (case status_id r of None \<Rightarrow> - 1 | Some i \<Rightarrow> if i = 0 then - 1 else i)),
       upd_execution_time_ms = Some (case time_ms r of None \<Rightarrow> 0 | Some t \<Rightarrow> t),
       upd_memory_used_kb = Some (case memory r of None \<Rightarrow> 0 | Some m \<Rightarrow> m)\<rparr>)"

text \<open>
  The closure \<open>poll\<close>: \<open>attempts\<close> is the counter before the call,
  \<open>delays\<close> the delays of the \<open>setTimeout\<close> calls made so far, and
  \<open>remote k\<close> the answer to the \<open>k\<close>-th retrieval. The value is the one call of
  \<open>updateJobStatus\<close> the chain of calls ends with.
\<close>

function poll :: "(nat \<Rightarrow> poll_response) \<Rightarrow> nat \<Rightarrow> nat list \<Rightarrow> poll_outcome" where
  "poll remote attempts delays =
     (case remote (attempts + 1) of
        PollData r \<Rightarrow>
          if still_processing r then
            (if attempts + 1 < maxAttempts then poll remote (attempts + 1) (delays @ [1000])
             else \<lparr>po_attempts = attempts + 1, po_delays = delays, po_status = Timeout,
                    po_updates = no_updates\<lparr>upd_stderr := Some ''Compilation timed out after 30 seconds''\<rparr>\<rparr>)
          else
            \<lparr>po_attempts = attempts + 1, po_delays = delays,
             po_status = fst (completed_update r), po_updates = snd (completed_update r)\<rparr>
      | PollThrows \<Rightarrow>
          if attempts + 1 < maxAttempts then poll remote (attempts + 1) (delays @ [1000])
          else \<lparr>po_attempts = attempts + 1, po_delays = delays, po_status = Error,
                 po_updates = no_updates\<lparr>upd_stderr := Some ''Failed to get compilation results''\<rparr>\<rparr>)"
  by pat_completeness auto
termination
  by (relation "measure (\<lambda>(remote, attempts, delays). maxAttempts - attempts)") auto

declare poll.simps [simp del]

text \<open>
  \<open>pollJudge0Results\<close> schedules the first call of \<open>poll\<close> after one second; the
  state is the one the final \<open>updateJobStatus\<close> leaves.
\<close>

definition pollJudge0Results :: "svc_env \<Rightarrow> string \<Rightarrow> string \<Rightarrow> svc_state \<Rightarrow> poll_outcome \<times> svc_state" where
  "pollJudge0Results env jobId judge0Token s =
     (let out = poll (judge0_poll env judge0Token) 0 [1000]
      in (out, updateJobStatus env jobId (po_status out) (po_updates out) s))"

record submit_reply =
  reply_jobId :: string
  reply_status :: status
  reply_createdAt :: nat

text \<open>
  The \<open>try\<close> block of \<open>submitCompilation\<close>, up to the point where polling is
  started: \<open>Inl\<close> the message of the error thrown, \<open>Inr\<close> the reply and the
  token to poll.
\<close>

definition submit_try ::
  "svc_env \<Rightarrow> string \<Rightarrow> string \<Rightarrow> CompilationRequest \<Rightarrow> svc_state
     \<Rightarrow> (string + submit_reply \<times> string) \<times> svc_state" where
  "submit_try env jobId userId request s =
     (case snd (validateCompilationRequest request) of
        Inl e \<Rightarrow> (Inl e, s)
      | Inr _ \<Rightarrow>
     (case checkWorkspacePermissions env s userId (req_workspaceId request) of
        Inl e \<Rightarrow> (Inl e, s)
      | Inr _ \<Rightarrow>
     (case get_property SERVICE_LANGUAGE_CONFIGS (req_language request) of
        Undefined \<Rightarrow> (Inl (''Unsupported language: '' @ req_language request), s)
      | langConfig \<Rightarrow>
     (case createCompilationJob env jobId userId request s of
        Inl e \<Rightarrow> (Inl e, s)
      | Inr (compilationJob, s1) \<Rightarrow>
     (case prepareSourceCode (req_sourceFiles request) (req_language request) of
        Inl e \<Rightarrow> (Inl e, s1)
      | Inr sourceCode \<Rightarrow>
     (case submitToJudge0 env langConfig sourceCode (req_compilerOptions request)
             (req_input request) of
        Inl e \<Rightarrow> (Inl e, s1)
      | Inr judge0Token \<Rightarrow>
          (Inr (\<lparr>reply_jobId = jobId, reply_status = Pending,
                 reply_createdAt = row_created_at compilationJob\<rparr>, judge0Token),
           updateJobMetadata env jobId judge0Token s1)))))))"

text \<open>
  \<open>submitCompilation\<close>: what the caller gets (\<open>Inl\<close> the error rethrown to it),
  the state when the call returns, and the state once the background polling has made
  its last update.
\<close>

definition submitCompilation ::
  "svc_env \<Rightarrow> string \<Rightarrow> CompilationRequest \<Rightarrow> svc_state
     \<Rightarrow> (string + submit_reply) \<times> svc_state \<times> svc_state" where
  "submitCompilation env userId request s =
     (let jobId = svc_uuid env in
      case submit_try env jobId userId request s of
        (Inl e, s1) \<Rightarrow>
          (let s2 = updateJobStatus env jobId Error (no_updates\<lparr>upd_stderr := Some e\<rparr>) s1
           in (Inl e, s2, s2))
      | (Inr (reply, judge0Token), s1) \<Rightarrow>
          (Inr reply, s1, snd (pollJudge0Results env jobId judge0Token s1)))"

subsection \<open>Status queries\<close>

record CompilationResult =
  cr_jobId :: string
  cr_status :: status
  cr_stdout :: "string option"
  cr_stderr :: "string option"
  cr_exitCode :: "int option"
  cr_executionTimeMs :: "int option"
  cr_memoryUsedKb :: "int option"
  cr_createdAt :: nat
  cr_completedAt :: "nat option"

definition formatCompilationResult :: "db_row \<Rightarrow> CompilationResult" where
  "formatCompilationResult j =
     \<lparr>cr_jobId = row_id j, cr_status = row_status j, cr_stdout = row_stdout j,
      cr_stderr = row_stderr j, cr_exitCode = row_exit_code j,
      cr_executionTimeMs = row_execution_time_ms j, cr_memoryUsedKb = row_memory_used_kb j,
      cr_createdAt = row_created_at j, cr_completedAt = row_completed_at j\<rparr>"

text \<open>
  \<open>getCompilationStatus\<close>: \<open>None\<close> is the \<open>null\<close> it returns, also from
  its \<open>catch\<close>. The query on the table asks for the identifier and the user
  together.
\<close>

definition status_from_db ::
  "svc_env \<Rightarrow> string \<Rightarrow> string \<Rightarrow> svc_state \<Rightarrow> CompilationResult option \<times> svc_state" where
  "status_from_db env userId jobId s =
     (if \<not> db_up env then (None, s)
      else
        (case compilation_jobs s jobId of
           None \<Rightarrow> (None, s)
         | Some j \<Rightarrow>
             if row_user_id j \<noteq> userId then (None, s)
             else (Some (formatCompilationResult j),
                   s\<lparr>redis := (redis s)(cache_key jobId \<mapsto> j)\<rparr>)))"

definition getCompilationStatus ::
  "svc_env \<Rightarrow> string \<Rightarrow> string \<Rightarrow> svc_state \<Rightarrow> CompilationResult option \<times> svc_state" where
  "getCompilationStatus env userId jobId s =
     (if \<not> redis_up env then (None, s)
      else
        (case redis s (cache_key jobId) of
           None \<Rightarrow> status_from_db env userId jobId s
         | Some cached \<Rightarrow>
             if row_user_id cached = userId then (Some (formatCompilationResult cached), s)
             else status_from_db env userId jobId s))"

section \<open>Notions the properties are stated with\<close>


text \<open>Output chunks among the events of a child, and the text they carry.\<close>

fun is_output :: "proc_event \<Rightarrow> bool" where
  "is_output (StdoutData d) = True"
| "is_output (StderrData d) = True"
| "is_output e = False"

fun stdout_chunk :: "proc_event \<Rightarrow> string" where
  "stdout_chunk (StdoutData d) = d"
| "stdout_chunk e = ''''"

fun stderr_chunk :: "proc_event \<Rightarrow> string" where
  "stderr_chunk (StderrData d) = d"
| "stderr_chunk e = ''''"

definition stdout_of :: "proc_event list \<Rightarrow> string" where
  "stdout_of events = concat (map stdout_chunk events)"

definition stderr_of :: "proc_event list \<Rightarrow> string" where
  "stderr_of events = concat (map stderr_chunk events)"




text \<open>What spawning does before any event arrives.\<close>

definition spawn_effects :: "string \<Rightarrow> string list \<Rightarrow> ExecutionOptions \<Rightarrow> effect list" where
  "spawn_effects command args options =
     emitted (spawn_state command args (timeout_or options 30000) options)"

text \<open>The file system as the effects of the runner change it.\<close>

type_synonym files = "string \<rightharpoonup> string"

fun apply_effect :: "files \<Rightarrow> effect \<Rightarrow> files" where
  "apply_effect fs (WriteFile p c) = fs(p \<mapsto> c)"
| "apply_effect fs (Unlink p) = fs(p := None)"
| "apply_effect fs e = fs"

definition apply_effects :: "effect list \<Rightarrow> files \<Rightarrow> files" where
  "apply_effects effs fs = foldl apply_effect fs effs"

text \<open>
  A record of the cache belongs to a row of the table with the same owner. The service
  only ever caches rows it has just read from the table, and never changes an owner.
\<close>

definition cache_coherent :: "svc_state \<Rightarrow> bool" where
  "cache_coherent s =
     (\<forall>k c. redis s (cache_key k) = Some c \<longrightarrow>
        (\<exists>r. compilation_jobs s k = Some r \<and> row_user_id r = row_user_id c))"





definition remote_submission_fails :: "pc_env \<Rightarrow> job \<Rightarrow> bool" where
  "remote_submission_fails env j =
     (case getJudge0LanguageId (job_language j) of
        None \<Rightarrow> True
      | Some languageId \<Rightarrow>
          (case fetch env languageId (first_content j) (or_empty (job_stdin j)) of
             FetchOk (Some r) \<Rightarrow> False
           | _ \<Rightarrow> True))"







text \<open>
  An answer to a retrieval that reports no terminal result: the request failed, or the
  judge says the submission is in its queue or being processed.
\<close>

fun unfinished :: "poll_response \<Rightarrow> bool" where
  "unfinished PollThrows = True"
| "unfinished (PollData r) = still_processing r"

section \<open>Sample inputs\<close>

definition sample_env :: run_env where
  "sample_env =
     \<lparr>tmpdir = ''/tmp'', now = 1700000000000, started = 1700000000000,
      write_ok = (\<lambda>_. True), chmod_ok = True,
      procs = (\<lambda>_. Spawned [StdoutData ''hi'', Close (Some 0) 1700000000042]),
      vm = (\<lambda>_ _. VmReturns '''' '''' 1700000000001),
      strip_types = (\<lambda>s. s)\<rparr>"

definition no_options :: ExecutionOptions where
  "no_options = \<lparr>timeout = None, memoryLimit = None, stdin = None\<rparr>"

text \<open>A judge that cannot be reached, and one that answers.\<close>

definition judge_down :: pc_env where
  "judge_down =
     \<lparr>fetch = (\<lambda>_ _ _. FetchThrows), runner = sample_env, rerun = sample_env,
      completion_time = 1700000000050, random_ms = 640, random_kb = 5000\<rparr>"

definition judge_accepts :: pc_env where
  "judge_accepts =
     \<lparr>fetch = (\<lambda>_ _ _. FetchOk (Some \<lparr>status_id = Some 3, j0_stdout = Some ''hi'',
                 j0_stderr = None, compile_output = None, time_ms = Some 12,
                 memory = Some 3000\<rparr>)),
      runner = sample_env, rerun = sample_env,
      completion_time = 1700000000050, random_ms = 640, random_kb = 5000\<rparr>"

definition sample_api :: api_env where
  "sample_api = \<lparr>uuid = ''job-1'', request_time = 1700000000000, pc = judge_down\<rparr>"





definition hello_py :: source_file where
  "hello_py = \<lparr>path = ''main.py'', content = ''print(1)''\<rparr>"


definition empty_body :: compile_body where
  "empty_body =
     \<lparr>body_workspaceId = Some ''ws-1'', body_language = Some ''python'',
      body_sourceFiles = Some [], body_compilerOptions = None\<rparr>"

definition sample_request :: CompilationRequest where
  "sample_request =
     \<lparr>req_workspaceId = ''ws-1'', req_language = ''python'', req_sourceFiles = [hello_py],
      req_compilerOptions = None, req_input = None\<rparr>"

definition processing :: judge0_result where
  "processing =
     \<lparr>status_id = Some 2, j0_stdout = None, j0_stderr = None, compile_output = None,
      time_ms = None, memory = None\<rparr>"

definition accepted :: judge0_result where
  "accepted =
     \<lparr>status_id = Some 3, j0_stdout = Some ''1'', j0_stderr = None, compile_output = None,
      time_ms = Some 12, memory = Some 3000\<rparr>"


definition svc_judge_up :: svc_env where
  "svc_judge_up =
     \<lparr>svc_uuid = ''job-1'', db_now = 1700000000000, svc_clock = 1700000000050,
      db_up = True, redis_up = True, db_error = ''connection refused'',
      judge0_submit = (\<lambda>_ _ _ _. Some ''token-1''),
      judge0_poll = (\<lambda>_ k. if k < 3 then PollData processing else PollData accepted)\<rparr>"

definition one_workspace :: svc_state where
  "one_workspace =
     \<lparr>compilation_jobs = Map.empty, workspaces = [''ws-1'' \<mapsto> ''user-1''],
      workspace_shares = [], redis = Map.empty\<rparr>"

definition svc_judge_stuck :: svc_env where
  "svc_judge_stuck = svc_judge_up\<lparr>judge0_poll := (\<lambda>_ _. PollData processing)\<rparr>"

definition svc_last_poll_fails :: svc_env where
  "svc_last_poll_fails =
     svc_judge_up\<lparr>judge0_poll := (\<lambda>_ k. if k < 30 then PollData processing else PollThrows)\<rparr>"

definition pending_row :: db_row where
  "pending_row =
     \<lparr>row_id = ''job-1'', row_user_id = ''user-1'', row_workspace_id = ''ws-1'',
      row_language = ''python'', row_source_files = [hello_py], row_compiler_options = None,
      row_status = Pending, row_stdout = None, row_stderr = None, row_exit_code = None,
      row_execution_time_ms = None, row_memory_used_kb = None,
      row_created_at = 1700000000000, row_completed_at = None,
      row_metadata = Some ''token-1''\<rparr>"

definition one_pending_job :: svc_state where
  "one_pending_job = one_workspace\<lparr>compilation_jobs := [''job-1'' \<mapsto> pending_row]\<rparr>"

definition shell_out_py :: source_file where
  "shell_out_py = \<lparr>path = ''main.py'', content = ''import os; os.system(cmd)''\<rparr>"

definition harmless_py :: source_file where
  "harmless_py = \<lparr>path = ''main.py'', content = ''print(123456789012345678)''\<rparr>"

definition stored_job :: job where
  "stored_job = new_job sample_api ''user-1'' ''ws-1'' ''python'' [hello_py] None"

definition one_job_store :: job_store where
  "one_job_store = [''job-1'' \<mapsto> stored_job]"

section \<open>Properties of the local runner\<close>

text \<open>
  C9. A language whose lower-cased name has no case in the dispatch of \<open>runCode\<close>
  (the compiled languages c, cpp, java, go and rust among them) gets the default
  branch: no file is written and no process is spawned, and the result is
  \<open>success\<close> with exit code 0 and the canned message, which names the language as
  it was passed and ends with the first 500 characters of the source (followed by an
  ellipsis when the source is longer).
\<close>

theorem runCode_unhandled_language:
  assumes "toLowerCase language \<notin> set dispatched"
  shows "runCode env language code options =
           ([], Resolves \<lparr>status = Success,
                      stdout = ''Code syntax for '' @ language @ '' appears valid!\<newline>\<newline>''
                        @ memo_sign @ '' For full '' @ language
                        @ '' compilation, the Judge0 API or a local compiler is required.\<newline>\<newline>''
                        @ ''Code preview:\<newline>'' @ take 500 code
                        @ (if length code > 500 then ''...'' else ''''),
                      stderr = '''', exitCode = 0, executionTimeMs = 0\<rparr>)"
  using assms
  by (simp add: runCode_def dispatched_def syntax_valid_message_def code_preview_def
        substring0_def)

theorem runCode_unhandled_language_witness:
  "toLowerCase ''c'' \<notin> set dispatched
   \<and> toLowerCase ''cpp'' \<notin> set dispatched
   \<and> toLowerCase ''java'' \<notin> set dispatched
   \<and> toLowerCase ''go'' \<notin> set dispatched
   \<and> toLowerCase ''Rust'' \<notin> set dispatched
   \<and> fst (runCode sample_env ''c'' ''int main() { return 0; }'' no_options) = []
   \<and> fst (runCode sample_env ''cpp'' ''int main() { return 0; }'' no_options) = []
   \<and> fst (runCode sample_env ''java'' ''class Main {}'' no_options) = []
   \<and> fst (runCode sample_env ''go'' ''package main'' no_options) = []
   \<and> runCode sample_env ''Rust'' ''fn main() {}'' no_options =
         ([], Resolves \<lparr>status = Success,
                    stdout = ''Code syntax for Rust appears valid!\<newline>\<newline>''
                      @ memo_sign
                      @ '' For full Rust compilation, the Judge0 API or a local compiler is required.\<newline>\<newline>''
                      @ ''Code preview:\<newline>fn main() {}'',
                    stderr = '''', exitCode = 0, executionTimeMs = 0\<rparr>)"
  using runCode_unhandled_language [of "''c''" sample_env "''int main() { return 0; }''" no_options]
        runCode_unhandled_language [of "''cpp''" sample_env "''int main() { return 0; }''" no_options]
        runCode_unhandled_language [of "''java''" sample_env "''class Main {}''" no_options]
        runCode_unhandled_language [of "''go''" sample_env "''package main''" no_options]
        runCode_unhandled_language [of "''Rust''" sample_env "''fn main() {}''" no_options]
  by (simp add: toLowerCase_def toLowerCase_char_def dispatched_def)

subsection \<open>How the event handlers fold\<close>

lemma foldl_output:
  "list_all is_output evs \<Longrightarrow>
   foldl (on_event tmo st) s evs =
     s\<lparr>buf_stdout := buf_stdout s @ stdout_of evs, buf_stderr := buf_stderr s @ stderr_of evs\<rparr>"
proof (induction evs arbitrary: s)
  case Nil
  then show ?case by (simp add: stdout_of_def stderr_of_def)
next
  case (Cons e evs)
  then show ?case by (cases e) (simp_all add: stdout_of_def stderr_of_def)
qed

lemma settled_inert:
  "resolved s \<noteq> None \<Longrightarrow> \<not> timeoutId_active s \<Longrightarrow> \<not> spawn_timeout_active s \<Longrightarrow>
   resolved (foldl (on_event tmo st) s evs) = resolved s
   \<and> emitted (foldl (on_event tmo st) s evs) = emitted s"
proof (induction evs arbitrary: s)
  case Nil
  then show ?case by simp
next
  case (Cons e evs)
  have step: "resolved (on_event tmo st s e) = resolved s
      \<and> emitted (on_event tmo st s e) = emitted s
      \<and> \<not> timeoutId_active (on_event tmo st s e)
      \<and> \<not> spawn_timeout_active (on_event tmo st s e)"
    using Cons.prems by (cases e) (auto simp: resolve_def)
  with Cons.IH [of "on_event tmo st s e"] Cons.prems show ?case by simp
qed













text \<open>
  C7, as the code has it. The buffers have no bound: when the child closes without the
  timer having fired, stdout and stderr of the result are all the chunks received,
  whatever their total length, no signal has been sent, and the status follows the exit
  code alone. No truncation and no notice exist.
\<close>

theorem output_captured_whole:
  assumes "list_all is_output evs"
  shows "executeWithProcess command args code options startTime (evs @ [Close c t] @ rest) =
         (spawn_effects command args options,
          Some \<lparr>status = (if c = Some 0 then Success else Error),
                 stdout = stdout_of evs, stderr = stderr_of evs,
                 exitCode = (case c of None \<Rightarrow> 0 | Some x \<Rightarrow> x),
                 executionTimeMs = t - startTime\<rparr>)"
proof -
  let ?tmo = "timeout_or options 30000"
  let ?s0 = "spawn_state command args ?tmo options"
  let ?f = "on_event ?tmo startTime"
  have s1: "foldl ?f ?s0 evs =
      ?s0\<lparr>buf_stdout := stdout_of evs, buf_stderr := stderr_of evs\<rparr>"
    using foldl_output [OF assms, of ?tmo startTime ?s0] by (simp add: spawn_state_def)
  let ?r = "\<lparr>status = (if c = Some 0 then Success else Error),
             stdout = stdout_of evs, stderr = stderr_of evs,
             exitCode = (case c of None \<Rightarrow> 0 | Some x \<Rightarrow> x),
             executionTimeMs = t - startTime\<rparr>"
  let ?s2 = "foldl ?f ?s0 (evs @ [Close c t])"
  have s2: "resolved ?s2 = Some ?r \<and> emitted ?s2 = emitted ?s0 \<and> \<not> timeoutId_active ?s2
            \<and> \<not> spawn_timeout_active ?s2"
    by (simp add: s1) (simp add: resolve_def spawn_state_def)
  have "foldl ?f ?s0 (evs @ [Close c t] @ rest) = foldl ?f ?s2 rest"
    by simp
  with settled_inert [of ?s2 ?tmo startTime rest] s2
  show ?thesis
    by (simp add: executeWithProcess_def spawn_effects_def Let_def del: foldl_append)
qed

theorem output_captured_whole_witness:
  "list_all is_output [StdoutData ''a'', StderrData ''warn'', StdoutData ''b'']
   \<and> executeWithProcess ''ruby'' [''/tmp/ai-ide-runner/ruby_1700000000000.rb'']
         ''puts 1'' no_options 1700000000000
         ([StdoutData ''a'', StderrData ''warn'', StdoutData ''b''] @ [Close (Some 0) 1700000000042] @ []) =
       ([Spawn ''ruby'' [''/tmp/ai-ide-runner/ruby_1700000000000.rb''] 30000, StdinEnd],
        Some \<lparr>status = Success, stdout = ''ab'', stderr = ''warn'',
               exitCode = 0, executionTimeMs = 42\<rparr>)"
  using output_captured_whole [of "[StdoutData ''a'', StderrData ''warn'', StdoutData ''b'']"
          "''ruby''" "[''/tmp/ai-ide-runner/ruby_1700000000000.rb'']"
          "''puts 1''" no_options 1700000000000 "Some 0" 1700000000042 "[]"]
  by (simp add: spawn_effects_def spawn_state_def no_options_def timeout_or_def
        stdout_of_def stderr_of_def)

text \<open>
  C7 as stated fails: a child that prints 64 MiB and exits with 0 is not terminated
  early; the result is \<open>success\<close> and carries the 64 MiB whole.
\<close>

theorem unbounded_output_counterexample:
  "executeWithProcess ''python3'' [''/tmp/ai-ide-runner/python_1700000000000.py'']
     ''print(chr(120) * 67108864)'' no_options 1700000000000
     [StdoutData (replicate 67108864 CHR ''x''), Close (Some 0) 1700000000900] =
   ([Spawn ''python3'' [''/tmp/ai-ide-runner/python_1700000000000.py''] 30000, StdinEnd],
    Some \<lparr>status = Success, stdout = replicate 67108864 CHR ''x'', stderr = '''',
           exitCode = 0, executionTimeMs = 900\<rparr>)
   \<and> length (replicate 67108864 CHR ''x'') = 67108864"
  by (simp add: executeWithProcess_def spawn_state_def no_options_def timeout_or_def
        resolve_def)

section \<open>Properties of the compilation service\<close>

subsection \<open>Polling\<close>

lemma replicate_tail: "a < 29 \<Longrightarrow> x # replicate (28 - a) x = replicate (29 - a) x"
proof -
  assume "a < 29"
  then have "29 - a = Suc (28 - a)" by simp
  then show ?thesis by simp
qed

lemma poll_unfinished:
  "attempts < 30 \<Longrightarrow> (\<forall>k. attempts < k \<and> k \<le> 30 \<longrightarrow> unfinished (remote k)) \<Longrightarrow>
   poll remote attempts delays =
     \<lparr>po_attempts = 30, po_delays = delays @ replicate (29 - attempts) 1000,
      po_status = (if remote 30 = PollThrows then Error else Timeout),
      po_updates = no_updates\<lparr>upd_stderr :=
        Some (if remote 30 = PollThrows then ''Failed to get compilation results''
              else ''Compilation timed out after 30 seconds'')\<rparr>\<rparr>"
proof (induction remote attempts delays rule: poll.induct)
  case (1 remote attempts delays)
  have unf: "unfinished (remote (attempts + 1))"
    using "1.prems" by simp
  show ?case
  proof (cases "attempts + 1 < maxAttempts")
    case True
    then have lt: "attempts < 29" and lt': "attempts + 1 < 30"
      by (simp_all add: maxAttempts_def)
    have rest: "\<forall>k. attempts + 1 < k \<and> k \<le> 30 \<longrightarrow> unfinished (remote k)"
      using "1.prems" by simp
    show ?thesis
    proof (cases "remote (attempts + 1)")
      case PollThrows
      from "1.IH"(1) [OF PollThrows True lt' rest] lt True PollThrows
      show ?thesis
        by (subst poll.simps) (simp add: replicate_tail)
    next
      case (PollData r)
      with unf have sp: "still_processing r" by simp
      from "1.IH"(2) [OF PollData sp True lt' rest] lt True PollData sp
      show ?thesis
        by (subst poll.simps) (simp add: replicate_tail)
    qed
  next
    case False
    with "1.prems" have a: "attempts = 29" by (simp add: maxAttempts_def)
    show ?thesis
    proof (cases "remote 30")
      case PollThrows
      with a show ?thesis
        by (subst poll.simps) (simp add: maxAttempts_def)
    next
      case (PollData r)
      with unf a have sp: "still_processing r" by simp
      with a PollData show ?thesis
        by (subst poll.simps) (simp add: maxAttempts_def)
    qed
  qed
qed

lemma poll_first_30:
  "attempts < 30 \<Longrightarrow> (\<forall>k. attempts < k \<and> k \<le> 30 \<longrightarrow> remote' k = remote k) \<Longrightarrow>
   poll remote' attempts delays = poll remote attempts delays"
proof (induction remote attempts delays rule: poll.induct)
  case (1 remote attempts delays)
  have same: "remote' (attempts + 1) = remote (attempts + 1)"
    using "1.prems" by simp
  show ?case
  proof (cases "attempts + 1 < maxAttempts")
    case True
    then have lt: "attempts + 1 < 30" by (simp add: maxAttempts_def)
    have rest: "\<forall>k. attempts + 1 < k \<and> k \<le> 30 \<longrightarrow> remote' k = remote k"
      using "1.prems" by simp
    show ?thesis
    proof (cases "remote (attempts + 1)")
      case PollThrows
      from "1.IH"(1) [OF PollThrows True lt rest] same PollThrows True
      show ?thesis
        by (subst poll.simps, subst (2) poll.simps) simp
    next
      case (PollData r)
      show ?thesis
      proof (cases "still_processing r")
        case sp: True
        from "1.IH"(2) [OF PollData sp True lt rest] same PollData True sp
        show ?thesis
          by (subst poll.simps, subst (2) poll.simps) simp
      next
        case nsp: False
        with same PollData show ?thesis
          by (subst poll.simps, subst (2) poll.simps) simp
      qed
    qed
  next
    case False
    with same show ?thesis
      by (subst poll.simps, subst (2) poll.simps) (simp split: poll_response.splits)
  qed
qed

lemma thirty_delays: "[x] @ replicate 29 x = replicate 30 x"
proof -
  have "(30::nat) = Suc 29" by simp
  then show ?thesis by (simp only: replicate_Suc append_Cons append_Nil)
qed

text \<open>
  C5, as the code has it. Suppose none of the first 30 retrievals reports a terminal
  result (each fails, or answers ``in queue'' or ``processing''). Then polling makes
  exactly 30 attempts, each after a delay of one second, and ends with one update of
  the job: to \<open>timeout\<close> when the 30th answer still reports processing, to
  \<open>error\<close> when the 30th retrieval fails. What the judge would answer to a 31st
  or later retrieval has no influence; and when the database accepts the update the
  job's row has that status.
\<close>

theorem polling_gives_up_after_30_attempts:
  assumes "\<forall>k. 1 \<le> k \<and> k \<le> maxAttempts \<longrightarrow> unfinished (judge0_poll env token k)"
  shows "fst (pollJudge0Results env jobId token s) =
           \<lparr>po_attempts = 30, po_delays = replicate 30 1000,
            po_status = (if judge0_poll env token 30 = PollThrows then Error else Timeout),
            po_updates = no_updates\<lparr>upd_stderr :=
              Some (if judge0_poll env token 30 = PollThrows
                    then ''Failed to get compilation results''
                    else ''Compilation timed out after 30 seconds'')\<rparr>\<rparr>
         \<and> (\<forall>later. (\<forall>k. 1 \<le> k \<and> k \<le> 30 \<longrightarrow> later k = judge0_poll env token k) \<longrightarrow>
               poll later 0 [1000] = poll (judge0_poll env token) 0 [1000])
         \<and> (db_up env \<longrightarrow>
              (\<forall>row. compilation_jobs s jobId = Some row \<longrightarrow>
                 map_option row_status
                   (compilation_jobs (snd (pollJudge0Results env jobId token s)) jobId) =
                 Some (if judge0_poll env token 30 = PollThrows then Error else Timeout)))"
proof -
  let ?remote = "judge0_poll env token"
  have unf: "\<forall>k. 0 < k \<and> k \<le> 30 \<longrightarrow> unfinished (?remote k)"
    using assms by (simp add: maxAttempts_def)
  have out: "poll ?remote 0 [1000] =
      \<lparr>po_attempts = 30, po_delays = replicate 30 1000,
       po_status = (if ?remote 30 = PollThrows then Error else Timeout),
       po_updates = no_updates\<lparr>upd_stderr :=
         Some (if ?remote 30 = PollThrows then ''Failed to get compilation results''
               else ''Compilation timed out after 30 seconds'')\<rparr>\<rparr>"
    using poll_unfinished [of 0 ?remote "[1000]", OF _ unf] thirty_delays [of "1000::nat"]
    by simp
  have first: "fst (pollJudge0Results env jobId token s) = poll ?remote 0 [1000]"
    by (simp add: pollJudge0Results_def Let_def)
  have later: "\<forall>later. (\<forall>k. 1 \<le> k \<and> k \<le> 30 \<longrightarrow> later k = ?remote k) \<longrightarrow>
      poll later 0 [1000] = poll ?remote 0 [1000]"
  proof (intro allI impI)
    fix later
    assume "\<forall>k. 1 \<le> k \<and> k \<le> 30 \<longrightarrow> later k = ?remote k"
    then have "\<forall>k. 0 < k \<and> k \<le> 30 \<longrightarrow> later k = ?remote k" by simp
    from poll_first_30 [of 0 later ?remote "[1000]", OF _ this]
    show "poll later 0 [1000] = poll ?remote 0 [1000]" by simp
  qed
  have row: "db_up env \<longrightarrow>
      (\<forall>row. compilation_jobs s jobId = Some row \<longrightarrow>
         map_option row_status
           (compilation_jobs (snd (pollJudge0Results env jobId token s)) jobId) =
         Some (if ?remote 30 = PollThrows then Error else Timeout))"
    by (simp add: pollJudge0Results_def Let_def out updateJobStatus_def apply_updateData_def)
  from first out have result:
    "fst (pollJudge0Results env jobId token s) =
       \<lparr>po_attempts = 30, po_delays = replicate 30 1000,
        po_status = (if ?remote 30 = PollThrows then Error else Timeout),
        po_updates = no_updates\<lparr>upd_stderr :=
          Some (if ?remote 30 = PollThrows then ''Failed to get compilation results''
                else ''Compilation timed out after 30 seconds'')\<rparr>\<rparr>"
    by simp
  show ?thesis by (rule conjI [OF result conjI [OF later row]])
qed

theorem polling_gives_up_after_30_attempts_witness:
  "fst (pollJudge0Results svc_judge_stuck ''job-1'' ''token-1'' one_pending_job) =
     \<lparr>po_attempts = 30, po_delays = replicate 30 1000, po_status = Timeout,
      po_updates = no_updates\<lparr>upd_stderr := Some ''Compilation timed out after 30 seconds''\<rparr>\<rparr>
   \<and> poll (\<lambda>k. if k \<le> 30 then PollData processing else PollData accepted) 0 [1000] =
     poll (judge0_poll svc_judge_stuck ''token-1'') 0 [1000]
   \<and> map_option row_status
       (compilation_jobs
          (snd (pollJudge0Results svc_judge_stuck ''job-1'' ''token-1'' one_pending_job))
          ''job-1'') = Some Timeout"
proof -
  have hyp: "\<forall>k. 1 \<le> k \<and> k \<le> maxAttempts \<longrightarrow>
      unfinished (judge0_poll svc_judge_stuck ''token-1'' k)"
    by (simp add: svc_judge_stuck_def svc_judge_up_def processing_def still_processing_def)
  have same: "\<forall>k. 1 \<le> k \<and> k \<le> 30 \<longrightarrow>
      (\<lambda>k. if k \<le> 30 then PollData processing else PollData accepted) k =
      judge0_poll svc_judge_stuck ''token-1'' k"
    by (simp add: svc_judge_stuck_def svc_judge_up_def)
  have up: "db_up svc_judge_stuck"
    by (simp add: svc_judge_stuck_def svc_judge_up_def)
  have row: "compilation_jobs one_pending_job ''job-1'' = Some pending_row"
    by (simp add: one_pending_job_def)
  have p: "judge0_poll svc_judge_stuck ''token-1'' 30 \<noteq> PollThrows"
    by (simp add: svc_judge_stuck_def svc_judge_up_def)
  note inst = polling_gives_up_after_30_attempts [OF hyp, of "''job-1''" one_pending_job]
  from inst p have c1:
    "fst (pollJudge0Results svc_judge_stuck ''job-1'' ''token-1'' one_pending_job) =
       \<lparr>po_attempts = 30, po_delays = replicate 30 1000, po_status = Timeout,
        po_updates = no_updates\<lparr>upd_stderr := Some ''Compilation timed out after 30 seconds''\<rparr>\<rparr>"
    by (simp only: if_False) 
  have imp: "(\<forall>k. 1 \<le> k \<and> k \<le> 30 \<longrightarrow>
        (if k \<le> 30 then PollData processing else PollData accepted) =
        judge0_poll svc_judge_stuck ''token-1'' k) \<longrightarrow>
      poll (\<lambda>k. if k \<le> 30 then PollData processing else PollData accepted) 0 [1000] =
      poll (judge0_poll svc_judge_stuck ''token-1'') 0 [1000]"
    using inst [THEN conjunct2, THEN conjunct1] by (rule spec)
  from imp same have c2:
    "poll (\<lambda>k. if k \<le> 30 then PollData processing else PollData accepted) 0 [1000] =
     poll (judge0_poll svc_judge_stuck ''token-1'') 0 [1000]"
    by (rule mp)
  from inst [THEN conjunct2, THEN conjunct2] up
  have "\<forall>row. compilation_jobs one_pending_job ''job-1'' = Some row \<longrightarrow>
      map_option row_status
        (compilation_jobs
           (snd (pollJudge0Results svc_judge_stuck ''job-1'' ''token-1'' one_pending_job))
           ''job-1'') =
      Some (if judge0_poll svc_judge_stuck ''token-1'' 30 = PollThrows then Error else Timeout)"
    by (rule mp)
  then have "compilation_jobs one_pending_job ''job-1'' = Some pending_row \<longrightarrow>
      map_option row_status
        (compilation_jobs
           (snd (pollJudge0Results svc_judge_stuck ''job-1'' ''token-1'' one_pending_job))
           ''job-1'') =
      Some (if judge0_poll svc_judge_stuck ''token-1'' 30 = PollThrows then Error else Timeout)"
    by (rule spec)
  from this row have
    "map_option row_status
        (compilation_jobs
           (snd (pollJudge0Results svc_judge_stuck ''job-1'' ''token-1'' one_pending_job))
           ''job-1'') =
      Some (if judge0_poll svc_judge_stuck ''token-1'' 30 = PollThrows then Error else Timeout)"
    by (rule mp)
  with p have c3:
    "map_option row_status
       (compilation_jobs
          (snd (pollJudge0Results svc_judge_stuck ''job-1'' ''token-1'' one_pending_job))
          ''job-1'') = Some Timeout"
    by (simp only: if_False)
  show ?thesis by (rule conjI [OF c1 conjI [OF c2 c3]])
qed

text \<open>
  C5 as stated fails: the judge reports ``processing'' 29 times and the 30th retrieval
  fails. No terminal result was ever reported, the bound is reached, and the job goes to
  \<open>error\<close>, not \<open>timeout\<close>.
\<close>

theorem polling_error_counterexample:
  "unfinished (judge0_poll svc_last_poll_fails ''token-1'' 1)
   \<and> unfinished (judge0_poll svc_last_poll_fails ''token-1'' 29)
   \<and> unfinished (judge0_poll svc_last_poll_fails ''token-1'' 30)
   \<and> po_attempts (fst (pollJudge0Results svc_last_poll_fails ''job-1'' ''token-1'' one_pending_job)) = 30
   \<and> po_status (fst (pollJudge0Results svc_last_poll_fails ''job-1'' ''token-1'' one_pending_job)) = Error
   \<and> map_option row_status
       (compilation_jobs
          (snd (pollJudge0Results svc_last_poll_fails ''job-1'' ''token-1'' one_pending_job))
          ''job-1'') = Some Error"
proof -
  let ?remote = "judge0_poll svc_last_poll_fails ''token-1''"
  have unf: "\<forall>k. 0 < k \<and> k \<le> 30 \<longrightarrow> unfinished (?remote k)"
    by (simp add: svc_last_poll_fails_def svc_judge_up_def processing_def still_processing_def)
  have last: "?remote 30 = PollThrows"
    by (simp add: svc_last_poll_fails_def svc_judge_up_def)
  have out: "poll ?remote 0 [1000] =
      \<lparr>po_attempts = 30, po_delays = [1000] @ replicate 29 1000, po_status = Error,
       po_updates = no_updates\<lparr>upd_stderr := Some ''Failed to get compilation results''\<rparr>\<rparr>"
    using poll_unfinished [of 0 ?remote "[1000]", OF _ unf] last by simp
  have up: "db_up svc_last_poll_fails"
    by (simp add: svc_last_poll_fails_def svc_judge_up_def)
  have row: "compilation_jobs one_pending_job ''job-1'' = Some pending_row"
    by (simp add: one_pending_job_def)
  have u1: "unfinished (?remote 1)" and u29: "unfinished (?remote 29)"
    and u30: "unfinished (?remote 30)"
    using unf by simp_all
  have f: "fst (pollJudge0Results svc_last_poll_fails ''job-1'' ''token-1'' one_pending_job)
      = poll ?remote 0 [1000]"
    by (simp add: pollJudge0Results_def Let_def)
  have st: "map_option row_status
       (compilation_jobs
          (snd (pollJudge0Results svc_last_poll_fails ''job-1'' ''token-1'' one_pending_job))
          ''job-1'') = Some Error"
    by (simp add: pollJudge0Results_def Let_def out updateJobStatus_def up row
          apply_updateData_def)
  from u1 u29 u30 f out st show ?thesis by simp
qed

subsection \<open>Validation\<close>

lemma foldl_sizes:
  "foldl (\<lambda>sum file. sum + length (content file)) a files =
     a + sum_list (map (\<lambda>f. length (content f)) files)"
  by (induction files arbitrary: a) simp_all

lemma totalSize_lengths:
  "totalSize files = sum_list (map (\<lambda>f. length (content f)) files)"
  by (simp add: totalSize_def foldl_sizes)

text \<open>
  C10. The scan for suspicious patterns decides nothing. Two requests with the same
  workspace, the same language and files of the same lengths get the same outcome from
  \<open>validateCompilationRequest\<close>, whatever their contents, matching or not; and a
  request is accepted exactly when the workspace and the language are given, there is at
  least one file and the total size is at most 1 MiB. A match only adds a warning to the
  log.
\<close>

theorem scan_never_blocks:
  assumes "req_workspaceId r' = req_workspaceId r"
      and "req_language r' = req_language r"
      and "map (\<lambda>f. length (content f)) (req_sourceFiles r') =
           map (\<lambda>f. length (content f)) (req_sourceFiles r)"
  shows "snd (validateCompilationRequest r') = snd (validateCompilationRequest r)
         \<and> (snd (validateCompilationRequest r) = Inr ()) =
             (req_workspaceId r \<noteq> '''' \<and> req_language r \<noteq> ''''
              \<and> req_sourceFiles r \<noteq> [] \<and> totalSize (req_sourceFiles r) \<le> 1024 * 1024)"
proof -
  have len: "length (req_sourceFiles r') = length (req_sourceFiles r)"
    using assms(3) by (metis length_map)
  have size: "totalSize (req_sourceFiles r') = totalSize (req_sourceFiles r)"
    using assms(3) by (simp add: totalSize_lengths)
  have same: "snd (validateCompilationRequest r') = snd (validateCompilationRequest r)"
    using assms(1,2) len size by (simp add: validateCompilationRequest_def)
  have accept: "(snd (validateCompilationRequest r) = Inr ()) =
             (req_workspaceId r \<noteq> '''' \<and> req_language r \<noteq> ''''
              \<and> req_sourceFiles r \<noteq> [] \<and> totalSize (req_sourceFiles r) \<le> 1024 * 1024)"
    by (simp add: validateCompilationRequest_def)
  show ?thesis by (rule conjI [OF same accept])
qed

lemma scan_shell_out:
  "scanForMaliciousCode [shell_out_py] =
     [''Potentially malicious code detected in main.py'',
      ''Potentially malicious code detected in main.py'']"
  by (simp add: scanForMaliciousCode_def maliciousPatterns_def shell_out_py_def
        toLowerCase_char_def is_space_def)

lemma scan_harmless: "scanForMaliciousCode [harmless_py] = []"
  by (simp add: scanForMaliciousCode_def maliciousPatterns_def harmless_py_def
        toLowerCase_char_def is_space_def)

theorem scan_never_blocks_witness:
  "snd (validateCompilationRequest (sample_request\<lparr>req_sourceFiles := [shell_out_py]\<rparr>)) = Inr ()
   \<and> snd (validateCompilationRequest (sample_request\<lparr>req_sourceFiles := [harmless_py]\<rparr>)) = Inr ()
   \<and> fst (validateCompilationRequest (sample_request\<lparr>req_sourceFiles := [shell_out_py]\<rparr>)) =
       [''Potentially malicious code detected in main.py'',
        ''Potentially malicious code detected in main.py'']
   \<and> fst (validateCompilationRequest (sample_request\<lparr>req_sourceFiles := [harmless_py]\<rparr>)) = []"
proof -
  let ?bad = "sample_request\<lparr>req_sourceFiles := [shell_out_py]\<rparr>"
  let ?good = "sample_request\<lparr>req_sourceFiles := [harmless_py]\<rparr>"
  have lens: "map (\<lambda>f. length (content f)) (req_sourceFiles ?bad) =
              map (\<lambda>f. length (content f)) (req_sourceFiles ?good)"
    by (simp add: shell_out_py_def harmless_py_def)
  have good: "snd (validateCompilationRequest ?good) = Inr ()"
    by (simp add: validateCompilationRequest_def sample_request_def totalSize_def
          harmless_py_def)
  have pass: "req_workspaceId ?bad \<noteq> '''' \<and> req_language ?bad \<noteq> ''''
      \<and> req_sourceFiles ?bad \<noteq> [] \<and> totalSize (req_sourceFiles ?bad) \<le> 1024 * 1024"
    by (simp add: sample_request_def totalSize_def shell_out_py_def)
  from scan_never_blocks [of ?bad ?good, OF _ _ lens] good
  have bad: "snd (validateCompilationRequest ?bad) = Inr ()" by simp
  have logs_bad: "fst (validateCompilationRequest ?bad) =
      [''Potentially malicious code detected in main.py'',
       ''Potentially malicious code detected in main.py'']"
    using pass by (simp add: validateCompilationRequest_def scan_shell_out)
  have logs_good: "fst (validateCompilationRequest ?good) = []"
    by (simp add: validateCompilationRequest_def sample_request_def totalSize_def
          scan_harmless)
  show ?thesis by (rule conjI [OF bad conjI [OF good conjI [OF logs_bad logs_good]]])
qed

subsection \<open>The cache stays coherent with the table\<close>

text \<open>
  Every operation of the service that writes to the table or to the cache keeps
  \<open>cache_coherent\<close>; it holds of a state with an empty cache.
\<close>

lemma cache_key_inj: "cache_key a = cache_key b \<Longrightarrow> a = b"
  by (simp add: cache_key_def)

lemma coherent_step:
  assumes coh: "cache_coherent s"
    and cache: "\<And>k c. redis s' (cache_key k) = Some c \<Longrightarrow>
                  redis s (cache_key k) = Some c \<or> compilation_jobs s' k = Some c"
    and rows: "\<And>k r. compilation_jobs s k = Some r \<Longrightarrow>
                  \<exists>r'. compilation_jobs s' k = Some r' \<and> row_user_id r' = row_user_id r"
  shows "cache_coherent s'"
  unfolding cache_coherent_def
proof (intro allI impI)
  fix k c
  assume "redis s' (cache_key k) = Some c"
  from cache [OF this] show "\<exists>r. compilation_jobs s' k = Some r \<and> row_user_id r = row_user_id c"
  proof
    assume "redis s (cache_key k) = Some c"
    with coh obtain r where "compilation_jobs s k = Some r" "row_user_id r = row_user_id c"
      unfolding cache_coherent_def by blast
    with rows [of k r] show ?thesis by auto
  next
    assume "compilation_jobs s' k = Some c"
    then show ?thesis by simp
  qed
qed

lemma coherent_updateJobStatus:
  assumes "cache_coherent s"
  shows "cache_coherent (updateJobStatus env jobId st updates s)"
proof (rule coherent_step [OF assms])
  fix k c
  assume "redis (updateJobStatus env jobId st updates s) (cache_key k) = Some c"
  then show "redis s (cache_key k) = Some c
      \<or> compilation_jobs (updateJobStatus env jobId st updates s) k = Some c"
    by (auto simp: updateJobStatus_def Let_def dest: cache_key_inj
          split: option.splits if_splits)
next
  fix k r
  assume "compilation_jobs s k = Some r"
  then show "\<exists>r'. compilation_jobs (updateJobStatus env jobId st updates s) k = Some r'
      \<and> row_user_id r' = row_user_id r"
    by (auto simp: updateJobStatus_def Let_def apply_updateData_def split: option.splits)
qed

lemma coherent_updateJobMetadata:
  assumes "cache_coherent s"
  shows "cache_coherent (updateJobMetadata env jobId token s)"
proof (rule coherent_step [OF assms])
  fix k c
  assume "redis (updateJobMetadata env jobId token s) (cache_key k) = Some c"
  then show "redis s (cache_key k) = Some c
      \<or> compilation_jobs (updateJobMetadata env jobId token s) k = Some c"
    by (auto simp: updateJobMetadata_def split: option.splits if_splits)
next
  fix k r
  assume "compilation_jobs s k = Some r"
  then show "\<exists>r'. compilation_jobs (updateJobMetadata env jobId token s) k = Some r'
      \<and> row_user_id r' = row_user_id r"
    by (auto simp: updateJobMetadata_def split: option.splits)
qed

lemma coherent_createCompilationJob:
  assumes "cache_coherent s"
    and "createCompilationJob env jobId userId request s = Inr (row, s')"
  shows "cache_coherent s'"
proof (rule coherent_step [OF assms(1)])
  fix k c
  assume "redis s' (cache_key k) = Some c"
  with assms(2) show "redis s (cache_key k) = Some c \<or> compilation_jobs s' k = Some c"
    by (auto simp: createCompilationJob_def Let_def split: if_splits)
next
  fix k r
  assume "compilation_jobs s k = Some r"
  with assms(2) show "\<exists>r'. compilation_jobs s' k = Some r' \<and> row_user_id r' = row_user_id r"
    by (auto simp: createCompilationJob_def Let_def split: if_splits)
qed

lemma coherent_getCompilationStatus:
  assumes "cache_coherent s"
  shows "cache_coherent (snd (getCompilationStatus env userId jobId s))"
proof (rule coherent_step [OF assms])
  fix k c
  assume "redis (snd (getCompilationStatus env userId jobId s)) (cache_key k) = Some c"
  then show "redis s (cache_key k) = Some c
      \<or> compilation_jobs (snd (getCompilationStatus env userId jobId s)) k = Some c"
    by (auto simp: getCompilationStatus_def status_from_db_def dest: cache_key_inj
          split: option.splits if_splits)
next
  fix k r
  assume "compilation_jobs s k = Some r"
  then show "\<exists>r'. compilation_jobs (snd (getCompilationStatus env userId jobId s)) k = Some r'
      \<and> row_user_id r' = row_user_id r"
    by (auto simp: getCompilationStatus_def status_from_db_def split: option.splits)
qed

lemma coherent_submit_try:
  assumes "cache_coherent s"
  shows "cache_coherent (snd (submit_try env jobId userId request s))"
  using assms
  by (auto simp: submit_try_def coherent_updateJobMetadata
        split: sum.splits option.splits prod.splits property.splits
        dest: coherent_createCompilationJob)

lemma coherent_submitCompilation:
  assumes "cache_coherent s"
  shows "cache_coherent (fst (snd (submitCompilation env userId request s)))
         \<and> cache_coherent (snd (snd (submitCompilation env userId request s)))"
  using coherent_submit_try [OF assms, of env "svc_uuid env" userId request]
  by (auto simp: submitCompilation_def Let_def pollJudge0Results_def coherent_updateJobStatus
        split: sum.splits prod.splits)

section \<open>Status queries across principals\<close>

text \<open>
  C6. A principal asking for a job that does not exist, or for a job that another
  principal owns, gets the same answer in both cases: the route answers 404 with the
  same body, and \<open>getCompilationStatus\<close> returns \<open>null\<close> and leaves table and
  cache untouched. For the service the cache must be coherent with the table, which
  its own operations maintain.
\<close>

theorem other_principals_job_not_found:
  assumes "cache_coherent s"
  shows "((store j = None \<or> (\<exists>job. store j = Some job \<and> job_userId job \<noteq> p)) \<longrightarrow>
            get_compile p j store = Status404 ''Compilation job not found'')
         \<and> ((compilation_jobs s j = None
              \<or> (\<exists>row. compilation_jobs s j = Some row \<and> row_user_id row \<noteq> p)) \<longrightarrow>
            getCompilationStatus env p j s = (None, s))"
proof -
  have route: "(store j = None \<or> (\<exists>job. store j = Some job \<and> job_userId job \<noteq> p)) \<longrightarrow>
      get_compile p j store = Status404 ''Compilation job not found''"
    by (auto simp: get_compile_def)
  have service: "(compilation_jobs s j = None
        \<or> (\<exists>row. compilation_jobs s j = Some row \<and> row_user_id row \<noteq> p)) \<longrightarrow>
      getCompilationStatus env p j s = (None, s)"
  proof
    assume hidden: "compilation_jobs s j = None
        \<or> (\<exists>row. compilation_jobs s j = Some row \<and> row_user_id row \<noteq> p)"
    then have db: "status_from_db env p j s = (None, s)"
      by (auto simp: status_from_db_def)
    have cache: "\<And>c. redis s (cache_key j) = Some c \<Longrightarrow> row_user_id c \<noteq> p"
    proof -
      fix c
      assume "redis s (cache_key j) = Some c"
      with assms obtain r where "compilation_jobs s j = Some r" "row_user_id r = row_user_id c"
        unfolding cache_coherent_def by blast
      with hidden show "row_user_id c \<noteq> p" by auto
    qed
    show "getCompilationStatus env p j s = (None, s)"
      using db cache by (auto simp: getCompilationStatus_def split: option.splits)
  qed
  show ?thesis by (rule conjI [OF route service])
qed

theorem other_principals_job_not_found_witness:
  "get_compile ''user-2'' ''job-1'' one_job_store = Status404 ''Compilation job not found''
   \<and> get_compile ''user-2'' ''job-9'' one_job_store = Status404 ''Compilation job not found''
   \<and> getCompilationStatus svc_judge_up ''user-2'' ''job-1'' one_pending_job = (None, one_pending_job)
   \<and> getCompilationStatus svc_judge_up ''user-2'' ''job-9'' one_pending_job = (None, one_pending_job)
   \<and> fst (getCompilationStatus svc_judge_up ''user-1'' ''job-1'' one_pending_job)
       = Some (formatCompilationResult pending_row)"
proof -
  have coh: "cache_coherent one_pending_job"
    by (simp add: cache_coherent_def one_pending_job_def one_workspace_def)
  have other: "one_job_store ''job-1'' = None
      \<or> (\<exists>job. one_job_store ''job-1'' = Some job \<and> job_userId job \<noteq> ''user-2'')"
    by (simp add: one_job_store_def stored_job_def new_job_def)
  have missing: "one_job_store ''job-9'' = None
      \<or> (\<exists>job. one_job_store ''job-9'' = Some job \<and> job_userId job \<noteq> ''user-2'')"
    by (simp add: one_job_store_def)
  have other_row: "compilation_jobs one_pending_job ''job-1'' = None
      \<or> (\<exists>row. compilation_jobs one_pending_job ''job-1'' = Some row
               \<and> row_user_id row \<noteq> ''user-2'')"
    by (simp add: one_pending_job_def pending_row_def)
  have missing_row: "compilation_jobs one_pending_job ''job-9'' = None
      \<or> (\<exists>row. compilation_jobs one_pending_job ''job-9'' = Some row
               \<and> row_user_id row \<noteq> ''user-2'')"
    by (simp add: one_pending_job_def)
  note a = other_principals_job_not_found [OF coh, where store = one_job_store
             and j = "''job-1''" and p = "''user-2''" and env = svc_judge_up]
  note b = other_principals_job_not_found [OF coh, where store = one_job_store
             and j = "''job-9''" and p = "''user-2''" and env = svc_judge_up]
  have c1: "get_compile ''user-2'' ''job-1'' one_job_store = Status404 ''Compilation job not found''"
    using a [THEN conjunct1] other by (rule mp)
  have c2: "get_compile ''user-2'' ''job-9'' one_job_store = Status404 ''Compilation job not found''"
    using b [THEN conjunct1] missing by (rule mp)
  have c3: "getCompilationStatus svc_judge_up ''user-2'' ''job-1'' one_pending_job
      = (None, one_pending_job)"
    using a [THEN conjunct2] other_row by (rule mp)
  have c4: "getCompilationStatus svc_judge_up ''user-2'' ''job-9'' one_pending_job
      = (None, one_pending_job)"
    using b [THEN conjunct2] missing_row by (rule mp)
  have c5: "fst (getCompilationStatus svc_judge_up ''user-1'' ''job-1'' one_pending_job)
       = Some (formatCompilationResult pending_row)"
    by (simp add: getCompilationStatus_def status_from_db_def svc_judge_up_def
          one_pending_job_def one_workspace_def pending_row_def)
  show ?thesis by (rule conjI [OF c1 conjI [OF c2 conjI [OF c3 conjI [OF c4 c5]]]])
qed

section \<open>Two defects, at concrete inputs\<close>

subsection \<open>Temp files named by the millisecond\<close>

lemma sample_temp_file:
  "tempFile_for sample_env ''python'' ''.py'' = ''/tmp/ai-ide-runner/python_1700000000000.py''"
  by (simp add: tempFile_for_def TEMP_DIR_def path_join_def sample_env_def
        string_of_nat.simps digit_char_def)

lemma sample_python_run:
  "executePython sample_env code no_options =
     ([WriteFile ''/tmp/ai-ide-runner/python_1700000000000.py'' code,
       Spawn ''python3'' [''/tmp/ai-ide-runner/python_1700000000000.py''] 30000,
       StdinEnd,
       Unlink ''/tmp/ai-ide-runner/python_1700000000000.py''],
      Some \<lparr>status = Success, stdout = ''hi'', stderr = '''', exitCode = 0,
             executionTimeMs = 42\<rparr>)"
  by (simp add: executePython_def sample_temp_file Let_def)
     (simp add: try_run_def executeWithProcess_def spawn_state_def timeout_or_def
        resolve_def sample_env_def no_options_def)

text \<open>
  C8 does not hold of the code. The temp file of a run is named after the language and
  \<open>Date.now()\<close> only, in one shared directory. Two Python runs that start in the
  same millisecond write to the same path: the second write replaces the source the
  first interpreter is about to read, and the clean-up of the first run removes the
  file of the second.
\<close>

theorem same_millisecond_same_temp_file:
  "fst (executePython sample_env ''print(1)'' no_options) =
     [WriteFile ''/tmp/ai-ide-runner/python_1700000000000.py'' ''print(1)'',
      Spawn ''python3'' [''/tmp/ai-ide-runner/python_1700000000000.py''] 30000,
      StdinEnd,
      Unlink ''/tmp/ai-ide-runner/python_1700000000000.py'']
   \<and> fst (executePython sample_env ''print(2)'' no_options) =
     [WriteFile ''/tmp/ai-ide-runner/python_1700000000000.py'' ''print(2)'',
      Spawn ''python3'' [''/tmp/ai-ide-runner/python_1700000000000.py''] 30000,
      StdinEnd,
      Unlink ''/tmp/ai-ide-runner/python_1700000000000.py'']
   \<and> apply_effects
         [WriteFile ''/tmp/ai-ide-runner/python_1700000000000.py'' ''print(1)'',
          WriteFile ''/tmp/ai-ide-runner/python_1700000000000.py'' ''print(2)'']
         Map.empty ''/tmp/ai-ide-runner/python_1700000000000.py'' = Some ''print(2)''
   \<and> apply_effects
         [WriteFile ''/tmp/ai-ide-runner/python_1700000000000.py'' ''print(1)'',
          WriteFile ''/tmp/ai-ide-runner/python_1700000000000.py'' ''print(2)'',
          Unlink ''/tmp/ai-ide-runner/python_1700000000000.py'']
         Map.empty ''/tmp/ai-ide-runner/python_1700000000000.py'' = None"
  by (simp add: sample_python_run apply_effects_def)

subsection \<open>An empty source list passes the route's validation\<close>

lemma sample_fallback_python:
  "runCode sample_env ''python'' code \<lparr>timeout = Some 30000, memoryLimit = None, stdin = None\<rparr> =
     ([WriteFile ''/tmp/ai-ide-runner/python_1700000000000.py'' code,
       Spawn ''python3'' [''/tmp/ai-ide-runner/python_1700000000000.py''] 30000,
       StdinEnd,
       Unlink ''/tmp/ai-ide-runner/python_1700000000000.py''],
      Resolves \<lparr>status = Success, stdout = ''hi'', stderr = '''', exitCode = 0,
                 executionTimeMs = 42\<rparr>)"
proof -
  have low: "toLowerCase ''python'' = ''python''"
    by (simp add: toLowerCase_def toLowerCase_char_def)
  show ?thesis
    by (simp add: runCode_def low Let_def executePython_def sample_temp_file)
       (simp add: try_run_def executeWithProcess_def spawn_state_def timeout_or_def
          resolve_def sample_env_def settled_def)
qed

text \<open>
  C4 does not hold of the route. The handler of \<open>POST /\<close> checks that
  \<open>sourceFiles\<close> is present and is an array, not that it has an element: a
  submission with an empty list is answered 202 with a job identifier, the job is
  stored with no source file and runs to \<open>success\<close> on the empty program. The
  validation of \<open>CompilationService\<close> rejects the same submission.
\<close>

theorem empty_source_list_is_accepted:
  "fst (post_compile sample_api ''user-1'' empty_body Map.empty) =
     Status202 ''job-1'' Pending ''Compilation job submitted''
   \<and> map_option job_sourceFiles
       (fst (snd (post_compile sample_api ''user-1'' empty_body Map.empty)) ''job-1'') = Some []
   \<and> map job_status (snd (snd (post_compile sample_api ''user-1'' empty_body Map.empty))) =
       [Pending, Running, Success]
   \<and> snd (validateCompilationRequest (sample_request\<lparr>req_sourceFiles := []\<rparr>)) =
       Inl ''At least one source file is required''"
proof -
  have cfg: "get_property LANGUAGE_CONFIGS ''python'' =
      Own \<lparr>extension = ''.py'', runCommand = ''python3'', compileCommand = None\<rparr>"
    by (simp add: get_property_def LANGUAGE_CONFIGS_def)
  have lid: "getJudge0LanguageId ''python'' = Some (Numbered 71)"
    by (simp add: getJudge0LanguageId_def get_property_def languageMap_def)
  have pc: "processCompilation judge_down (new_job sample_api ''user-1'' ''ws-1'' ''python'' [] None) =
      ((new_job sample_api ''user-1'' ''ws-1'' ''python'' [] None)\<lparr>job_status := Running\<rparr>,
       [WriteFile ''/tmp/ai-ide-runner/python_1700000000000.py'' '''',
        Spawn ''python3'' [''/tmp/ai-ide-runner/python_1700000000000.py''] 30000,
        StdinEnd,
        Unlink ''/tmp/ai-ide-runner/python_1700000000000.py''],
       Some ((new_job sample_api ''user-1'' ''ws-1'' ''python'' [] None)
          \<lparr>job_status := Success, job_stdout := Some ''hi'', job_stderr := Some '''',
           job_exitCode := Some 0, job_completedAt := Some 1700000000050,
           job_executionTimeMs := Some 640, job_memoryUsedKb := Some 5000\<rparr>))"
    by (simp add: processCompilation_def Let_def new_job_def lid catch_fallback_def
          assign_local_def executeLocally_def first_content_def judge_down_def
          sample_fallback_python)
  have post: "post_compile sample_api ''user-1'' empty_body Map.empty =
      (Status202 ''job-1'' Pending ''Compilation job submitted'',
       [''job-1'' \<mapsto> (new_job sample_api ''user-1'' ''ws-1'' ''python'' [] None)\<lparr>job_status := Running\<rparr>],
       [new_job sample_api ''user-1'' ''ws-1'' ''python'' [] None,
        (new_job sample_api ''user-1'' ''ws-1'' ''python'' [] None)\<lparr>job_status := Running\<rparr>,
        (new_job sample_api ''user-1'' ''ws-1'' ''python'' [] None)
          \<lparr>job_status := Success, job_stdout := Some ''hi'', job_stderr := Some '''',
           job_exitCode := Some 0, job_completedAt := Some 1700000000050,
           job_executionTimeMs := Some 640, job_memoryUsedKb := Some 5000\<rparr>])"
    using pc by (simp add: post_compile_def empty_body_def cfg sample_api_def Let_def)
  show ?thesis
    by (simp add: post) (simp add: new_job_def validateCompilationRequest_def sample_request_def)
qed

section \<open>The completion time and the terminal states\<close>

subsection \<open>The local runner returns terminal states only\<close>












subsection \<open>Jobs of the route\<close>








subsection \<open>Rows of the service\<close>











subsection \<open>One job followed through both paths\<close>








section \<open>When the remote submission fails\<close>








subsection \<open>Three jobs of the route and one of the service\<close>

lemma inherited_name_is_submitted:
  "getJudge0LanguageId ''constructor'' = Some NotANumber
   \<and> getJudge0LanguageId ''python'' = Some (Numbered 71)
   \<and> getJudge0LanguageId ''cobol'' = None
   \<and> \<not> remote_submission_fails judge_accepts (stored_job\<lparr>job_language := ''constructor''\<rparr>)"
  by (simp add: getJudge0LanguageId_def get_property_def languageMap_def
        object_prototype_names_def remote_submission_fails_def judge_accepts_def)









end
